theory Spec2Isabelle
  imports Main "HOL-Library.Word"
begin

section \<open>The C boundary of fastjsond (api.h, api.cpp)\<close>

text \<open>
  The wrapper exposes the engine's DOM through C functions. Pointers are modelled as
  options (\<open>None\<close> is the null pointer), an out-parameter \<open>T* out\<close> as a \<open>T option\<close>
  holding what the pointed-to variable contains, and every function returns the new
  contents of the objects it may write. A read through a pointer that does not point to
  a live, assigned object is undefined in C++; functions that dereference return an
  option whose \<open>None\<close> stands for that undefined behaviour.
\<close>

subsection \<open>Error codes (api.h, \<open>enum fj_error_e\<close>)\<close>

text \<open>
  \<open>fj_error\<close> is a C enumeration whose enumerators lie between 0 and 255: an object of
  the type has 32 bits, and a foreign caller can pass any bit pattern. In a comparison
  and as a subscript the value is promoted to \<open>int\<close>; \<open>sint\<close> reads that \<open>int\<close>.
\<close>

type_synonym fj_error = "32 word"

named_theorems fj_error_defs

definition FJ_SUCCESS :: fj_error where [fj_error_defs]: "FJ_SUCCESS = 0"
definition FJ_ERROR_CAPACITY :: fj_error where [fj_error_defs]: "FJ_ERROR_CAPACITY = 1"
definition FJ_ERROR_MEMALLOC :: fj_error where [fj_error_defs]: "FJ_ERROR_MEMALLOC = 2"
definition FJ_ERROR_TAPE_ERROR :: fj_error where [fj_error_defs]: "FJ_ERROR_TAPE_ERROR = 3"
definition FJ_ERROR_DEPTH_ERROR :: fj_error where [fj_error_defs]: "FJ_ERROR_DEPTH_ERROR = 4"
definition FJ_ERROR_STRING_ERROR :: fj_error where [fj_error_defs]: "FJ_ERROR_STRING_ERROR = 5"
definition FJ_ERROR_T_ATOM_ERROR :: fj_error where [fj_error_defs]: "FJ_ERROR_T_ATOM_ERROR = 6"
definition FJ_ERROR_F_ATOM_ERROR :: fj_error where [fj_error_defs]: "FJ_ERROR_F_ATOM_ERROR = 7"
definition FJ_ERROR_N_ATOM_ERROR :: fj_error where [fj_error_defs]: "FJ_ERROR_N_ATOM_ERROR = 8"
definition FJ_ERROR_NUMBER_ERROR :: fj_error where [fj_error_defs]: "FJ_ERROR_NUMBER_ERROR = 9"
definition FJ_ERROR_UTF8_ERROR :: fj_error where [fj_error_defs]: "FJ_ERROR_UTF8_ERROR = 10"
definition FJ_ERROR_UNINITIALIZED :: fj_error where [fj_error_defs]: "FJ_ERROR_UNINITIALIZED = 11"
definition FJ_ERROR_EMPTY :: fj_error where [fj_error_defs]: "FJ_ERROR_EMPTY = 12"
definition FJ_ERROR_UNESCAPED_CHARS :: fj_error where [fj_error_defs]: "FJ_ERROR_UNESCAPED_CHARS = 13"
definition FJ_ERROR_UNCLOSED_STRING :: fj_error where [fj_error_defs]: "FJ_ERROR_UNCLOSED_STRING = 14"
definition FJ_ERROR_UNSUPPORTED_ARCH :: fj_error where [fj_error_defs]: "FJ_ERROR_UNSUPPORTED_ARCH = 15"
definition FJ_ERROR_INCORRECT_TYPE :: fj_error where [fj_error_defs]: "FJ_ERROR_INCORRECT_TYPE = 16"
definition FJ_ERROR_NUMBER_OUT_OF_RANGE :: fj_error where [fj_error_defs]: "FJ_ERROR_NUMBER_OUT_OF_RANGE = 17"
definition FJ_ERROR_INDEX_OUT_OF_BOUNDS :: fj_error where [fj_error_defs]: "FJ_ERROR_INDEX_OUT_OF_BOUNDS = 18"
definition FJ_ERROR_NO_SUCH_FIELD :: fj_error where [fj_error_defs]: "FJ_ERROR_NO_SUCH_FIELD = 19"
definition FJ_ERROR_IO_ERROR :: fj_error where [fj_error_defs]: "FJ_ERROR_IO_ERROR = 20"
definition FJ_ERROR_INVALID_JSON_POINTER :: fj_error where [fj_error_defs]: "FJ_ERROR_INVALID_JSON_POINTER = 21"
definition FJ_ERROR_INVALID_URI_FRAGMENT :: fj_error where [fj_error_defs]: "FJ_ERROR_INVALID_URI_FRAGMENT = 22"
definition FJ_ERROR_UNEXPECTED_ERROR :: fj_error where [fj_error_defs]: "FJ_ERROR_UNEXPECTED_ERROR = 23"
definition FJ_ERROR_PARSER_IN_USE :: fj_error where [fj_error_defs]: "FJ_ERROR_PARSER_IN_USE = 24"
definition FJ_ERROR_OUT_OF_ORDER_ITERATION :: fj_error where [fj_error_defs]: "FJ_ERROR_OUT_OF_ORDER_ITERATION = 25"
definition FJ_ERROR_INSUFFICIENT_PADDING :: fj_error where [fj_error_defs]: "FJ_ERROR_INSUFFICIENT_PADDING = 26"
definition FJ_ERROR_INCOMPLETE_ARRAY_OR_OBJECT :: fj_error where [fj_error_defs]: "FJ_ERROR_INCOMPLETE_ARRAY_OR_OBJECT = 27"
definition FJ_ERROR_SCALAR_DOCUMENT_AS_VALUE :: fj_error where [fj_error_defs]: "FJ_ERROR_SCALAR_DOCUMENT_AS_VALUE = 28"
definition FJ_ERROR_OUT_OF_BOUNDS :: fj_error where [fj_error_defs]: "FJ_ERROR_OUT_OF_BOUNDS = 29"
definition FJ_ERROR_TRAILING_CONTENT :: fj_error where [fj_error_defs]: "FJ_ERROR_TRAILING_CONTENT = 30"
definition FJ_ERROR_UNKNOWN :: fj_error where [fj_error_defs]: "FJ_ERROR_UNKNOWN = 255"

text \<open>The enumerators of \<open>fj_error_e\<close>: the known public error kinds.\<close>

definition fj_error_kinds :: "fj_error list" where
  "fj_error_kinds = [FJ_SUCCESS, FJ_ERROR_CAPACITY, FJ_ERROR_MEMALLOC, FJ_ERROR_TAPE_ERROR,
     FJ_ERROR_DEPTH_ERROR, FJ_ERROR_STRING_ERROR, FJ_ERROR_T_ATOM_ERROR, FJ_ERROR_F_ATOM_ERROR,
     FJ_ERROR_N_ATOM_ERROR, FJ_ERROR_NUMBER_ERROR, FJ_ERROR_UTF8_ERROR, FJ_ERROR_UNINITIALIZED,
     FJ_ERROR_EMPTY, FJ_ERROR_UNESCAPED_CHARS, FJ_ERROR_UNCLOSED_STRING,
     FJ_ERROR_UNSUPPORTED_ARCH, FJ_ERROR_INCORRECT_TYPE, FJ_ERROR_NUMBER_OUT_OF_RANGE,
     FJ_ERROR_INDEX_OUT_OF_BOUNDS, FJ_ERROR_NO_SUCH_FIELD, FJ_ERROR_IO_ERROR,
     FJ_ERROR_INVALID_JSON_POINTER, FJ_ERROR_INVALID_URI_FRAGMENT, FJ_ERROR_UNEXPECTED_ERROR,
     FJ_ERROR_PARSER_IN_USE, FJ_ERROR_OUT_OF_ORDER_ITERATION, FJ_ERROR_INSUFFICIENT_PADDING,
     FJ_ERROR_INCOMPLETE_ARRAY_OR_OBJECT, FJ_ERROR_SCALAR_DOCUMENT_AS_VALUE,
     FJ_ERROR_OUT_OF_BOUNDS, FJ_ERROR_TRAILING_CONTENT, FJ_ERROR_UNKNOWN]"

subsection \<open>The engine's error codes and element types\<close>

text \<open>
  Modelled from the spec: the engine's \<open>error_code\<close> enumeration is declared in the
  engine's header, which is not part of the sources. The constructors are the codes that
  \<open>map_error\<close> names; \<open>OTHER_ERROR_CODE\<close> stands for every further code the engine has.
\<close>

datatype error_code =
    SUCCESS | CAPACITY | MEMALLOC | TAPE_ERROR | DEPTH_ERROR | STRING_ERROR
  | T_ATOM_ERROR | F_ATOM_ERROR | N_ATOM_ERROR | NUMBER_ERROR | UTF8_ERROR
  | UNINITIALIZED | EMPTY | UNESCAPED_CHARS | UNCLOSED_STRING
  | UNSUPPORTED_ARCHITECTURE | INCORRECT_TYPE | NUMBER_OUT_OF_RANGE
  | INDEX_OUT_OF_BOUNDS | NO_SUCH_FIELD | IO_ERROR | INVALID_JSON_POINTER
  | INVALID_URI_FRAGMENT | UNEXPECTED_ERROR | PARSER_IN_USE
  | OUT_OF_ORDER_ITERATION | INSUFFICIENT_PADDING | INCOMPLETE_ARRAY_OR_OBJECT
  | SCALAR_DOCUMENT_AS_VALUE | OUT_OF_BOUNDS | TRAILING_CONTENT
  | OTHER_ERROR_CODE nat

text \<open>
  Modelled from the spec: the engine's \<open>dom::element_type\<close> enumeration, likewise declared
  in the engine's header. \<open>OTHER_ELEMENT_TYPE\<close> stands for every value that \<open>map_type\<close>
  does not name.
\<close>

datatype element_type =
    NULL_VALUE | BOOL | INT64 | UINT64 | DOUBLE | STRING | ARRAY | OBJECT
  | OTHER_ELEMENT_TYPE nat

datatype fj_type =
    FJ_TYPE_NULL | FJ_TYPE_BOOL | FJ_TYPE_INT64 | FJ_TYPE_UINT64 | FJ_TYPE_DOUBLE
  | FJ_TYPE_STRING | FJ_TYPE_ARRAY | FJ_TYPE_OBJECT

subsection \<open>Error and type mapping (api.cpp, \<open>map_error\<close>, \<open>map_type\<close>)\<close>

fun map_error :: "error_code \<Rightarrow> fj_error" where
  "map_error SUCCESS = FJ_SUCCESS"
| "map_error CAPACITY = FJ_ERROR_CAPACITY"
| "map_error MEMALLOC = FJ_ERROR_MEMALLOC"
| "map_error TAPE_ERROR = FJ_ERROR_TAPE_ERROR"
| "map_error DEPTH_ERROR = FJ_ERROR_DEPTH_ERROR"
| "map_error STRING_ERROR = FJ_ERROR_STRING_ERROR"
| "map_error T_ATOM_ERROR = FJ_ERROR_T_ATOM_ERROR"
| "map_error F_ATOM_ERROR = FJ_ERROR_F_ATOM_ERROR"
| "map_error N_ATOM_ERROR = FJ_ERROR_N_ATOM_ERROR"
| "map_error NUMBER_ERROR = FJ_ERROR_NUMBER_ERROR"
| "map_error UTF8_ERROR = FJ_ERROR_UTF8_ERROR"
| "map_error UNINITIALIZED = FJ_ERROR_UNINITIALIZED"
| "map_error EMPTY = FJ_ERROR_EMPTY"
| "map_error UNESCAPED_CHARS = FJ_ERROR_UNESCAPED_CHARS"
| "map_error UNCLOSED_STRING = FJ_ERROR_UNCLOSED_STRING"
| "map_error UNSUPPORTED_ARCHITECTURE = FJ_ERROR_UNSUPPORTED_ARCH"
| "map_error INCORRECT_TYPE = FJ_ERROR_INCORRECT_TYPE"
| "map_error NUMBER_OUT_OF_RANGE = FJ_ERROR_NUMBER_OUT_OF_RANGE"
| "map_error INDEX_OUT_OF_BOUNDS = FJ_ERROR_INDEX_OUT_OF_BOUNDS"
| "map_error NO_SUCH_FIELD = FJ_ERROR_NO_SUCH_FIELD"
| "map_error IO_ERROR = FJ_ERROR_IO_ERROR"
| "map_error INVALID_JSON_POINTER = FJ_ERROR_INVALID_JSON_POINTER"
| "map_error INVALID_URI_FRAGMENT = FJ_ERROR_INVALID_URI_FRAGMENT"
| "map_error UNEXPECTED_ERROR = FJ_ERROR_UNEXPECTED_ERROR"
| "map_error PARSER_IN_USE = FJ_ERROR_PARSER_IN_USE"
| "map_error OUT_OF_ORDER_ITERATION = FJ_ERROR_OUT_OF_ORDER_ITERATION"
| "map_error INSUFFICIENT_PADDING = FJ_ERROR_INSUFFICIENT_PADDING"
| "map_error INCOMPLETE_ARRAY_OR_OBJECT = FJ_ERROR_INCOMPLETE_ARRAY_OR_OBJECT"
| "map_error SCALAR_DOCUMENT_AS_VALUE = FJ_ERROR_SCALAR_DOCUMENT_AS_VALUE"
| "map_error OUT_OF_BOUNDS = FJ_ERROR_OUT_OF_BOUNDS"
| "map_error TRAILING_CONTENT = FJ_ERROR_TRAILING_CONTENT"
| "map_error _ = FJ_ERROR_UNKNOWN"

fun map_type :: "element_type \<Rightarrow> fj_type" where
  "map_type NULL_VALUE = FJ_TYPE_NULL"
| "map_type BOOL = FJ_TYPE_BOOL"
| "map_type INT64 = FJ_TYPE_INT64"
| "map_type UINT64 = FJ_TYPE_UINT64"
| "map_type DOUBLE = FJ_TYPE_DOUBLE"
| "map_type STRING = FJ_TYPE_STRING"
| "map_type ARRAY = FJ_TYPE_ARRAY"
| "map_type OBJECT = FJ_TYPE_OBJECT"
| "map_type _ = FJ_TYPE_NULL"

subsection \<open>Error messages (api.cpp, \<open>fj_error_message\<close>)\<close>

definition messages :: "string list" where
  "messages = [
     ''Success'',
     ''Document too large'',
     ''Memory allocation failed'',
     ''Internal tape error'',
     ''Document too deep'',
     ''Invalid string'',
     ''Invalid 'true' atom'',
     ''Invalid 'false' atom'',
     ''Invalid 'null' atom'',
     ''Invalid number'',
     ''Invalid UTF-8 encoding'',
     ''Parser not initialized'',
     ''Empty input'',
     ''Unescaped control characters in string'',
     ''Unclosed string'',
     ''Unsupported architecture'',
     ''Incorrect type'',
     ''Number out of range'',
     ''Array index out of bounds'',
     ''Object field not found'',
     ''I/O error'',
     ''Invalid JSON pointer'',
     ''Invalid URI fragment'',
     ''Unexpected error'',
     ''Parser already in use'',
     ''Out of order iteration'',
     ''Insufficient padding'',
     ''Incomplete array or object'',
     ''Scalar document as value'',
     ''Out of bounds'',
     ''Trailing content after JSON'']"

text \<open>
  The result is a \<open>const char*\<close>: \<open>Some s\<close> is a pointer to the static string \<open>s\<close>,
  \<open>None\<close> is what a read of the table outside its bounds gives (no string of the
  program; the read is undefined). Both tests and the subscript \<open>messages[err]\<close> work on
  \<open>err\<close> promoted to \<open>int\<close>, so a value that is negative as an \<open>int\<close> passes both tests
  and is used as a negative subscript.
\<close>

definition fj_error_message :: "fj_error \<Rightarrow> string option" where
  "fj_error_message err =
     (if sint err = sint FJ_ERROR_UNKNOWN \<or> sint err > sint FJ_ERROR_TRAILING_CONTENT
      then Some ''Unknown error''
      else if 0 \<le> sint err \<and> nat (sint err) < length messages
           then Some (messages ! nat (sint err)) else None)"

subsection \<open>The engine's DOM\<close>

text \<open>
  Modelled from the spec: \<open>dom::element\<close>, \<open>dom::array\<close>, \<open>dom::object\<close> and their
  accessors belong to the engine, which is not part of the sources. An element is one
  node of the parsed tree, of one of the eight types of the spec; integers and doubles
  are kept as their 64-bit patterns. An array is the list of its children in document
  order, an object the list of its fields (key and value) in document order.
\<close>

datatype element =
    E_null
  | E_bool bool
  | E_int64 "64 word"
  | E_uint64 "64 word"
  | E_double "64 word"
  | E_string string
  | E_array "element list"
  | E_object "(string \<times> element) list"

text \<open>
  \<open>simdjson_result<T>\<close> is a pair of a value and an error code; \<open>error()\<close> is the second
  component and \<open>value()\<close> the first, which holds a default-constructed \<open>T\<close> when the
  error code is not \<open>SUCCESS\<close>. The wrapper reads the value only after testing the error.
\<close>

type_synonym 'a simdjson_result = "'a \<times> error_code"

text \<open>
  Modelled from the spec: \<open>element.type()\<close>, the type tag of a node, one of the eight
  types of the spec.
\<close>

fun element_type_of :: "element \<Rightarrow> element_type" where
  "element_type_of E_null = NULL_VALUE"
| "element_type_of (E_bool _) = BOOL"
| "element_type_of (E_int64 _) = INT64"
| "element_type_of (E_uint64 _) = UINT64"
| "element_type_of (E_double _) = DOUBLE"
| "element_type_of (E_string _) = STRING"
| "element_type_of (E_array _) = ARRAY"
| "element_type_of (E_object _) = OBJECT"

text \<open>
  Modelled from the spec: the engine's extractions \<open>get_bool\<close>, \<open>get_int64\<close>,
  \<open>get_uint64\<close>, \<open>get_double\<close> and \<open>get_string\<close>. Every extraction fails with
  \<open>IncorrectType\<close> if the actual type does not match, and with \<open>NumberOutOfRange\<close>
  when a number does not fit the requested width or signedness.
\<close>

fun get_bool :: "element \<Rightarrow> bool simdjson_result" where
  "get_bool (E_bool b) = (b, SUCCESS)"
| "get_bool _ = (False, INCORRECT_TYPE)"

fun get_int64 :: "element \<Rightarrow> 64 word simdjson_result" where
  "get_int64 (E_int64 w) = (w, SUCCESS)"
| "get_int64 (E_uint64 w) = (if unat w < 2 ^ 63 then (w, SUCCESS) else (0, NUMBER_OUT_OF_RANGE))"
| "get_int64 _ = (0, INCORRECT_TYPE)"

fun get_uint64 :: "element \<Rightarrow> 64 word simdjson_result" where
  "get_uint64 (E_uint64 w) = (w, SUCCESS)"
| "get_uint64 (E_int64 w) = (if 0 \<le> sint w then (w, SUCCESS) else (0, NUMBER_OUT_OF_RANGE))"
| "get_uint64 _ = (0, INCORRECT_TYPE)"

fun get_double :: "element \<Rightarrow> 64 word simdjson_result" where
  "get_double (E_double d) = (d, SUCCESS)"
| "get_double _ = (0, INCORRECT_TYPE)"

fun get_string :: "element \<Rightarrow> string simdjson_result" where
  "get_string (E_string cs) = (cs, SUCCESS)"
| "get_string _ = ([], INCORRECT_TYPE)"

text \<open>
  Modelled from the spec: the engine's \<open>get_array\<close> and \<open>get_object\<close> give the
  container, or \<open>IncorrectType\<close> if the node is not of the expected container kind.
\<close>

fun get_array :: "element \<Rightarrow> element list simdjson_result" where
  "get_array (E_array xs) = (xs, SUCCESS)"
| "get_array _ = ([], INCORRECT_TYPE)"

fun get_object :: "element \<Rightarrow> (string \<times> element) list simdjson_result" where
  "get_object (E_object fs) = (fs, SUCCESS)"
| "get_object _ = ([], INCORRECT_TYPE)"

text \<open>
  Modelled from the spec: the engine's lookups. \<open>object[key]\<close> (\<open>at_key\<close>) gives the
  value of the field with that key, or \<open>NoSuchField\<close>; \<open>array.at(i)\<close> (\<open>at\<close>) gives the
  child at position \<open>i\<close>, or \<open>IndexOutOfBounds\<close>. The value component of a failed
  lookup is a default-constructed element, written \<open>E_null\<close> here; the wrapper never
  reads it.
\<close>

fun at_key :: "(string \<times> element) list \<Rightarrow> string \<Rightarrow> element simdjson_result" where
  "at_key [] k = (E_null, NO_SUCH_FIELD)"
| "at_key ((k', x) # fs) k = (if k' = k then (x, SUCCESS) else at_key fs k)"

definition at :: "element list \<Rightarrow> nat \<Rightarrow> element simdjson_result" where
  "at xs i = (if i < length xs then (xs ! i, SUCCESS) else (E_null, INDEX_OUT_OF_BOUNDS))"

text \<open>
  The parsing and minifying algorithms are black boxes: the wrapper is modelled for an
  arbitrary engine. \<open>engine_parse c buf len\<close> is \<open>parser.parse(json, len)\<close> on a parser
  whose capacity ceiling is \<open>c\<close> (\<open>None\<close>: the engine's default); \<open>engine_minify buf len\<close>
  is \<open>minify(json, len, json, *out_len)\<close> and gives the rewritten buffer and the new
  length with the error code.
\<close>

record engine =
  engine_parse :: "nat option \<Rightarrow> string \<Rightarrow> nat \<Rightarrow> element simdjson_result"
  engine_minify :: "string \<Rightarrow> nat \<Rightarrow> (string \<times> nat) simdjson_result"

subsection \<open>Internal structures (api.cpp) and handles (api.h)\<close>

text \<open>
  \<open>fj_parser_s\<close> holds the engine's parser, of which the model keeps the capacity ceiling.
\<close>

record fj_parser_s =
  parser :: "nat option"

record fj_document_s =
  root :: element
  error :: fj_error

text \<open>
  Modelled from the spec: the engine's iterators over an array or an object. An iterator
  is a position among the children: \<open>begin()\<close> is position 0 (the first child),
  \<open>end()\<close> the number of children, \<open>++\<close> adds one. The fields \<open>end\<close> are named
  \<open>iter_end\<close> and \<open>oiter_end\<close>, the field \<open>current\<close> of the object iterator \<open>ocurrent\<close>.
\<close>

record fj_array_iter_s =
  array :: "element list"
  current :: nat
  iter_end :: nat

record fj_object_iter_s =
  object :: "(string \<times> element) list"
  ocurrent :: nat
  oiter_end :: nat

text \<open>
  Five functions each declare their own \<open>static thread_local dom::element
  stored_elements[256]\<close> and \<open>static thread_local size_t stored_idx\<close>; \<open>pool\<close> names the
  function that owns the pair. An address is either \<open>&doc->root\<close> of a heap document or
  \<open>&stored_elements[i]\<close> of one thread and one function.
\<close>

type_synonym tid = nat
type_synonym doc_id = nat

datatype pool = GET_FIELD | GET_FIELD_LEN | GET_INDEX | ARRAY_ITER_NEXT | OBJECT_ITER_NEXT

datatype addr = Root doc_id | Stored tid pool nat

record fj_value =
  impl :: "addr option"
  doc :: "doc_id option"

text \<open>
  A cell of \<open>stored_elements\<close> that was never assigned holds a default-constructed
  element, on which no accessor may be called: \<open>None\<close>.
\<close>

record ring =
  stored_elements :: "nat \<Rightarrow> element option"
  stored_idx :: nat

record state =
  docs :: "doc_id \<Rightarrow> fj_document_s option"
  stored :: "tid \<Rightarrow> pool \<Rightarrow> ring"

definition ring0 :: ring where
  "ring0 = \<lparr>stored_elements = (\<lambda>_. None), stored_idx = 0\<rparr>"

definition state0 :: state where
  "state0 = \<lparr>docs = (\<lambda>_. None), stored = (\<lambda>_ _. ring0)\<rparr>"

text \<open>\<open>get_element\<close> with the read of the element it points to.\<close>

definition get_element :: "state \<Rightarrow> addr \<Rightarrow> element option" where
  "get_element s a =
     (case a of
        Root d \<Rightarrow> map_option root (docs s d)
      | Stored t p i \<Rightarrow> if i < 256 then stored_elements (stored s t p) i else None)"

text \<open>
  The statements every deriving function repeats on its own statics:
  \<open>stored_idx = (stored_idx + 1) % 256; stored_elements[stored_idx] = e;\<close> and the
  address \<open>&stored_elements[stored_idx]\<close>.
\<close>

definition store_element :: "tid \<Rightarrow> pool \<Rightarrow> element \<Rightarrow> state \<Rightarrow> addr \<times> state" where
  "store_element t p e s =
     (let r = stored s t p;
          i = (stored_idx r + 1) mod 256;
          r' = r\<lparr>stored_idx := i, stored_elements := (stored_elements r)(i := Some e)\<rparr>
      in (Stored t p i, s\<lparr>stored := (stored s)(t := (stored s t)(p := r'))\<rparr>))"

type_synonym fj_parser = "fj_parser_s option"
type_synonym fj_document = "doc_id option"
type_synonym fj_array_iter = "fj_array_iter_s option"
type_synonym fj_object_iter = "fj_object_iter_s option"

subsection \<open>Parser functions\<close>

text \<open>\<open>bad_alloc\<close> tells whether \<open>new\<close> throws.\<close>

definition fj_parser_new :: "bool \<Rightarrow> nat \<Rightarrow> fj_parser" where
  "fj_parser_new bad_alloc max_capacity =
     (if bad_alloc then None
      else Some \<lparr>parser = (if max_capacity > 0 then Some max_capacity else None)\<rparr>)"

text \<open>
  \<open>new_doc\<close> is what \<open>new fj_document_s()\<close> does: \<open>None\<close> when it throws, \<open>Some d\<close> when
  it returns the address \<open>d\<close>. \<open>dout\<close> is the out-parameter \<open>fj_document* doc\<close>.
\<close>

definition fj_parser_parse ::
  "engine \<Rightarrow> doc_id option \<Rightarrow> state \<Rightarrow> fj_parser \<Rightarrow> string option \<Rightarrow> nat \<Rightarrow> fj_document option
     \<Rightarrow> fj_error \<times> state \<times> fj_document option" where
  "fj_parser_parse eng new_doc s p json len dout =
     (case (p, json, dout) of
        (Some ps, Some buf, Some _) \<Rightarrow>
          (case engine_parse eng (parser ps) buf len of
             (v, err) \<Rightarrow>
               if err \<noteq> SUCCESS then (map_error err, s, Some None)
               else (case new_doc of
                       None \<Rightarrow> (FJ_ERROR_UNEXPECTED_ERROR, s, Some None)
                     | Some d \<Rightarrow>
                         (FJ_SUCCESS,
                          s\<lparr>docs := (docs s)(d := Some \<lparr>root = v, error = FJ_SUCCESS\<rparr>)\<rparr>,
                          Some (Some d))))
      | _ \<Rightarrow> (FJ_ERROR_UNINITIALIZED, s, dout))"

definition fj_parser_parse_padded ::
  "engine \<Rightarrow> doc_id option \<Rightarrow> state \<Rightarrow> fj_parser \<Rightarrow> string option \<Rightarrow> nat \<Rightarrow> fj_document option
     \<Rightarrow> fj_error \<times> state \<times> fj_document option" where
  "fj_parser_parse_padded eng new_doc s p json len dout =
     fj_parser_parse eng new_doc s p json len dout"

subsection \<open>Document functions\<close>

text \<open>\<open>delete\<close> of a null pointer does nothing; of a pointer to no live document it is undefined.\<close>

definition fj_document_free :: "state \<Rightarrow> fj_document \<Rightarrow> state option" where
  "fj_document_free s dh =
     (case dh of
        None \<Rightarrow> Some s
      | Some d \<Rightarrow> (case docs s d of
                    None \<Rightarrow> None
                  | Some _ \<Rightarrow> Some (s\<lparr>docs := (docs s)(d := None)\<rparr>)))"

definition fj_document_root :: "fj_document \<Rightarrow> fj_value" where
  "fj_document_root dh =
     \<lparr>impl = (case dh of None \<Rightarrow> None | Some d \<Rightarrow> Some (Root d)), doc = dh\<rparr>"

definition fj_document_error :: "state \<Rightarrow> fj_document \<Rightarrow> fj_error option" where
  "fj_document_error s dh =
     (case dh of
        None \<Rightarrow> Some FJ_ERROR_UNINITIALIZED
      | Some d \<Rightarrow> map_option error (docs s d))"

subsection \<open>Value type functions\<close>

definition fj_value_type :: "state \<Rightarrow> fj_value \<Rightarrow> fj_type option" where
  "fj_value_type s v =
     (case impl v of
        None \<Rightarrow> Some FJ_TYPE_NULL
      | Some a \<Rightarrow> map_option (\<lambda>e. map_type (element_type_of e)) (get_element s a))"

subsection \<open>Value extraction functions\<close>

definition fj_value_get_bool ::
  "state \<Rightarrow> fj_value \<Rightarrow> bool option \<Rightarrow> (fj_error \<times> bool option) option" where
  "fj_value_get_bool s v out =
     (case (impl v, out) of
        (Some a, Some _) \<Rightarrow>
          (case get_element s a of
             None \<Rightarrow> None
           | Some e \<Rightarrow>
               (case get_bool e of
                  (x, err) \<Rightarrow>
                    if err \<noteq> SUCCESS then Some (map_error err, out)
                    else Some (FJ_SUCCESS, Some x)))
      | _ \<Rightarrow> Some (FJ_ERROR_UNINITIALIZED, out))"

definition fj_value_get_int64 ::
  "state \<Rightarrow> fj_value \<Rightarrow> 64 word option \<Rightarrow> (fj_error \<times> 64 word option) option" where
  "fj_value_get_int64 s v out =
     (case (impl v, out) of
        (Some a, Some _) \<Rightarrow>
          (case get_element s a of
             None \<Rightarrow> None
           | Some e \<Rightarrow>
               (case get_int64 e of
                  (x, err) \<Rightarrow>
                    if err \<noteq> SUCCESS then Some (map_error err, out)
                    else Some (FJ_SUCCESS, Some x)))
      | _ \<Rightarrow> Some (FJ_ERROR_UNINITIALIZED, out))"

definition fj_value_get_uint64 ::
  "state \<Rightarrow> fj_value \<Rightarrow> 64 word option \<Rightarrow> (fj_error \<times> 64 word option) option" where
  "fj_value_get_uint64 s v out =
     (case (impl v, out) of
        (Some a, Some _) \<Rightarrow>
          (case get_element s a of
             None \<Rightarrow> None
           | Some e \<Rightarrow>
               (case get_uint64 e of
                  (x, err) \<Rightarrow>
                    if err \<noteq> SUCCESS then Some (map_error err, out)
                    else Some (FJ_SUCCESS, Some x)))
      | _ \<Rightarrow> Some (FJ_ERROR_UNINITIALIZED, out))"

definition fj_value_get_double ::
  "state \<Rightarrow> fj_value \<Rightarrow> 64 word option \<Rightarrow> (fj_error \<times> 64 word option) option" where
  "fj_value_get_double s v out =
     (case (impl v, out) of
        (Some a, Some _) \<Rightarrow>
          (case get_element s a of
             None \<Rightarrow> None
           | Some e \<Rightarrow>
               (case get_double e of
                  (x, err) \<Rightarrow>
                    if err \<noteq> SUCCESS then Some (map_error err, out)
                    else Some (FJ_SUCCESS, Some x)))
      | _ \<Rightarrow> Some (FJ_ERROR_UNINITIALIZED, out))"

text \<open>The string view is returned as its characters (\<open>*out\<close>) and their number (\<open>*len\<close>).\<close>

definition fj_value_get_string ::
  "state \<Rightarrow> fj_value \<Rightarrow> string option \<Rightarrow> nat option
     \<Rightarrow> (fj_error \<times> string option \<times> nat option) option" where
  "fj_value_get_string s v out len =
     (case (impl v, out, len) of
        (Some a, Some _, Some _) \<Rightarrow>
          (case get_element s a of
             None \<Rightarrow> None
           | Some e \<Rightarrow>
               (case get_string e of
                  (sv, err) \<Rightarrow>
                    if err \<noteq> SUCCESS then Some (map_error err, out, len)
                    else Some (FJ_SUCCESS, Some sv, Some (length sv))))
      | _ \<Rightarrow> Some (FJ_ERROR_UNINITIALIZED, out, len))"

subsection \<open>Object access functions\<close>

text \<open>
  The functions that use their thread-local statics take the calling thread \<open>t\<close>.
  \<open>key\<close> is a C string: null, or the characters before the terminator.
\<close>

definition fj_value_get_field ::
  "tid \<Rightarrow> state \<Rightarrow> fj_value \<Rightarrow> string option \<Rightarrow> fj_value option
     \<Rightarrow> (fj_error \<times> state \<times> fj_value option) option" where
  "fj_value_get_field t s v key out =
     (case (impl v, key, out) of
        (Some a, Some k, Some _) \<Rightarrow>
          (case get_element s a of
             None \<Rightarrow> None
           | Some e \<Rightarrow>
               (case get_object e of
                  (obj, err) \<Rightarrow>
                    if err \<noteq> SUCCESS then Some (map_error err, s, out)
                    else (case at_key obj k of
                            (x, ferr) \<Rightarrow>
                              if ferr \<noteq> SUCCESS then Some (map_error ferr, s, out)
                              else (case store_element t GET_FIELD x s of
                                      (cell, s') \<Rightarrow>
                                        Some (FJ_SUCCESS, s',
                                              Some \<lparr>impl = Some cell, doc = doc v\<rparr>)))))
      | _ \<Rightarrow> Some (FJ_ERROR_UNINITIALIZED, s, out))"

text \<open>
  Here \<open>key\<close> is a buffer of which the first \<open>key_len\<close> characters are the key; a
  \<open>key_len\<close> beyond the buffer reads outside it.
\<close>

definition fj_value_get_field_len ::
  "tid \<Rightarrow> state \<Rightarrow> fj_value \<Rightarrow> string option \<Rightarrow> nat \<Rightarrow> fj_value option
     \<Rightarrow> (fj_error \<times> state \<times> fj_value option) option" where
  "fj_value_get_field_len t s v key key_len out =
     (case (impl v, key, out) of
        (Some a, Some k, Some _) \<Rightarrow>
          (case get_element s a of
             None \<Rightarrow> None
           | Some e \<Rightarrow>
               (case get_object e of
                  (obj, err) \<Rightarrow>
                    if err \<noteq> SUCCESS then Some (map_error err, s, out)
                    else if length k < key_len then None
                    else (case at_key obj (take key_len k) of
                            (x, ferr) \<Rightarrow>
                              if ferr \<noteq> SUCCESS then Some (map_error ferr, s, out)
                              else (case store_element t GET_FIELD_LEN x s of
                                      (cell, s') \<Rightarrow>
                                        Some (FJ_SUCCESS, s',
                                              Some \<lparr>impl = Some cell, doc = doc v\<rparr>)))))
      | _ \<Rightarrow> Some (FJ_ERROR_UNINITIALIZED, s, out))"

definition fj_value_has_field :: "state \<Rightarrow> fj_value \<Rightarrow> string option \<Rightarrow> bool option" where
  "fj_value_has_field s v key =
     (case (impl v, key) of
        (Some a, Some k) \<Rightarrow>
          (case get_element s a of
             None \<Rightarrow> None
           | Some e \<Rightarrow>
               (case get_object e of
                  (obj, err) \<Rightarrow>
                    if err \<noteq> SUCCESS then Some False
                    else (case at_key obj k of (x, ferr) \<Rightarrow> Some (\<not> ferr \<noteq> SUCCESS))))
      | _ \<Rightarrow> Some False)"

definition fj_value_object_size ::
  "state \<Rightarrow> fj_value \<Rightarrow> nat option \<Rightarrow> (fj_error \<times> nat option) option" where
  "fj_value_object_size s v out =
     (case (impl v, out) of
        (Some a, Some _) \<Rightarrow>
          (case get_element s a of
             None \<Rightarrow> None
           | Some e \<Rightarrow>
               (case get_object e of
                  (obj, err) \<Rightarrow>
                    if err \<noteq> SUCCESS then Some (map_error err, out)
                    else Some (FJ_SUCCESS, Some (length obj))))
      | _ \<Rightarrow> Some (FJ_ERROR_UNINITIALIZED, out))"

subsection \<open>Array access functions\<close>

definition fj_value_get_index ::
  "tid \<Rightarrow> state \<Rightarrow> fj_value \<Rightarrow> nat \<Rightarrow> fj_value option
     \<Rightarrow> (fj_error \<times> state \<times> fj_value option) option" where
  "fj_value_get_index t s v idx out =
     (case (impl v, out) of
        (Some a, Some _) \<Rightarrow>
          (case get_element s a of
             None \<Rightarrow> None
           | Some e \<Rightarrow>
               (case get_array e of
                  (arr, err) \<Rightarrow>
                    if err \<noteq> SUCCESS then Some (map_error err, s, out)
                    else (case at arr idx of
                            (x, eerr) \<Rightarrow>
                              if eerr \<noteq> SUCCESS then Some (map_error eerr, s, out)
                              else (case store_element t GET_INDEX x s of
                                      (cell, s') \<Rightarrow>
                                        Some (FJ_SUCCESS, s',
                                              Some \<lparr>impl = Some cell, doc = doc v\<rparr>)))))
      | _ \<Rightarrow> Some (FJ_ERROR_UNINITIALIZED, s, out))"

definition fj_value_array_size ::
  "state \<Rightarrow> fj_value \<Rightarrow> nat option \<Rightarrow> (fj_error \<times> nat option) option" where
  "fj_value_array_size s v out =
     (case (impl v, out) of
        (Some a, Some _) \<Rightarrow>
          (case get_element s a of
             None \<Rightarrow> None
           | Some e \<Rightarrow>
               (case get_array e of
                  (arr, err) \<Rightarrow>
                    if err \<noteq> SUCCESS then Some (map_error err, out)
                    else Some (FJ_SUCCESS, Some (length arr))))
      | _ \<Rightarrow> Some (FJ_ERROR_UNINITIALIZED, out))"

subsection \<open>Iteration functions\<close>

text \<open>
  An iterator handle points to a heap object that only the iterator functions touch:
  the functions take the object (\<open>None\<close> for a null handle) and return it updated.
  \<open>iter\<close> of the constructors is the out-parameter.
\<close>

definition fj_array_iter_new ::
  "bool \<Rightarrow> state \<Rightarrow> fj_value \<Rightarrow> fj_array_iter option \<Rightarrow> (fj_error \<times> fj_array_iter option) option" where
  "fj_array_iter_new bad_alloc s v iter =
     (case (impl v, iter) of
        (Some a, Some _) \<Rightarrow>
          (case get_element s a of
             None \<Rightarrow> None
           | Some e \<Rightarrow>
               (case get_array e of
                  (arr, err) \<Rightarrow>
                    if err \<noteq> SUCCESS then Some (map_error err, iter)
                    else if bad_alloc then Some (FJ_ERROR_MEMALLOC, iter)
                    else Some (FJ_SUCCESS,
                               Some (Some \<lparr>array = arr, current = 0, iter_end = length arr\<rparr>))))
      | _ \<Rightarrow> Some (FJ_ERROR_UNINITIALIZED, iter))"

text \<open>Reading \<open>*iter->current\<close> at a position that is no child is undefined.\<close>

definition fj_array_iter_next ::
  "tid \<Rightarrow> state \<Rightarrow> fj_array_iter \<Rightarrow> fj_value option
     \<Rightarrow> (bool \<times> state \<times> fj_array_iter \<times> fj_value option) option" where
  "fj_array_iter_next t s iter out =
     (case (iter, out) of
        (Some it, Some _) \<Rightarrow>
          if current it = iter_end it then Some (False, s, iter, out)
          else if length (array it) \<le> current it then None
          else (case store_element t ARRAY_ITER_NEXT (array it ! current it) s of
                  (cell, s') \<Rightarrow>
                    Some (True, s', Some (it\<lparr>current := current it + 1\<rparr>),
                          Some \<lparr>impl = Some cell, doc = None\<rparr>))
      | _ \<Rightarrow> Some (False, s, iter, out))"

definition fj_object_iter_new ::
  "bool \<Rightarrow> state \<Rightarrow> fj_value \<Rightarrow> fj_object_iter option \<Rightarrow> (fj_error \<times> fj_object_iter option) option" where
  "fj_object_iter_new bad_alloc s v iter =
     (case (impl v, iter) of
        (Some a, Some _) \<Rightarrow>
          (case get_element s a of
             None \<Rightarrow> None
           | Some e \<Rightarrow>
               (case get_object e of
                  (obj, err) \<Rightarrow>
                    if err \<noteq> SUCCESS then Some (map_error err, iter)
                    else if bad_alloc then Some (FJ_ERROR_MEMALLOC, iter)
                    else Some (FJ_SUCCESS,
                               Some (Some \<lparr>object = obj, ocurrent = 0, oiter_end = length obj\<rparr>))))
      | _ \<Rightarrow> Some (FJ_ERROR_UNINITIALIZED, iter))"

text \<open>The out-parameters \<open>key\<close>, \<open>key_len\<close> and \<open>val\<close> are returned in this order.\<close>

definition fj_object_iter_next ::
  "tid \<Rightarrow> state \<Rightarrow> fj_object_iter \<Rightarrow> string option \<Rightarrow> nat option \<Rightarrow> fj_value option
     \<Rightarrow> (bool \<times> state \<times> fj_object_iter \<times> string option \<times> nat option \<times> fj_value option) option" where
  "fj_object_iter_next t s iter key key_len val =
     (case (iter, key, key_len, val) of
        (Some it, Some _, Some _, Some _) \<Rightarrow>
          if ocurrent it = oiter_end it then Some (False, s, iter, key, key_len, val)
          else if length (object it) \<le> ocurrent it then None
          else (case object it ! ocurrent it of
                  (k, x) \<Rightarrow>
                    (case store_element t OBJECT_ITER_NEXT x s of
                       (cell, s') \<Rightarrow>
                         Some (True, s', Some (it\<lparr>ocurrent := ocurrent it + 1\<rparr>),
                               Some k, Some (length k),
                               Some \<lparr>impl = Some cell, doc = None\<rparr>)))
      | _ \<Rightarrow> Some (False, s, iter, key, key_len, val))"

subsection \<open>Utility functions\<close>

text \<open>\<open>json\<close> is the buffer, rewritten in place; \<open>out_len\<close> the out-parameter.\<close>

definition fj_minify ::
  "engine \<Rightarrow> string option \<Rightarrow> nat \<Rightarrow> nat option \<Rightarrow> fj_error \<times> string option \<times> nat option" where
  "fj_minify eng json len out_len =
     (case (json, out_len) of
        (Some buf, Some _) \<Rightarrow>
          (case engine_minify eng buf len of
             ((buf', n), err) \<Rightarrow> (map_error err, Some buf', Some n))
      | _ \<Rightarrow> (FJ_ERROR_UNINITIALIZED, json, out_len))"

definition fj_validate :: "engine \<Rightarrow> string option \<Rightarrow> nat \<Rightarrow> fj_error" where
  "fj_validate eng json len =
     (case json of
        None \<Rightarrow> FJ_ERROR_UNINITIALIZED
      | Some buf \<Rightarrow> (case engine_parse eng None buf len of (v, err) \<Rightarrow> map_error err))"

subsection \<open>Sequences of calls\<close>

text \<open>The element a caller reads through the Value an out-parameter holds.\<close>

definition value_element :: "state \<Rightarrow> fj_value option \<Rightarrow> element option" where
  "value_element s out =
     (case out of
        None \<Rightarrow> None
      | Some v \<Rightarrow> (case impl v of None \<Rightarrow> None | Some a \<Rightarrow> get_element s a))"

definition null_value :: fj_value where
  "null_value = \<lparr>impl = None, doc = None\<rparr>"

text \<open>
  \<open>array_iter_nexts t n\<close> calls \<open>fj_array_iter_next\<close> \<open>n\<close> times in a row on thread \<open>t\<close>
  and lists, for every call, the flag it returned and, when the flag is true, the
  element read through the Value it handed back.
\<close>

fun array_iter_nexts ::
  "tid \<Rightarrow> nat \<Rightarrow> state \<Rightarrow> fj_array_iter \<Rightarrow> fj_value option
     \<Rightarrow> ((bool \<times> element option) list \<times> state \<times> fj_array_iter) option" where
  "array_iter_nexts t 0 s iter out = Some ([], s, iter)"
| "array_iter_nexts t (Suc n) s iter out =
     (case fj_array_iter_next t s iter out of
        None \<Rightarrow> None
      | Some (avail, s', iter', out') \<Rightarrow>
          (case array_iter_nexts t n s' iter' out' of
             None \<Rightarrow> None
           | Some (rs, s'', iter'') \<Rightarrow>
               Some ((avail, if avail then value_element s' out' else None) # rs, s'', iter'')))"

text \<open>The same for \<open>fj_object_iter_next\<close>, with the key and its length.\<close>

fun object_iter_nexts ::
  "tid \<Rightarrow> nat \<Rightarrow> state \<Rightarrow> fj_object_iter \<Rightarrow> string option \<Rightarrow> nat option \<Rightarrow> fj_value option
     \<Rightarrow> ((bool \<times> (string option \<times> nat option \<times> element option) option) list
          \<times> state \<times> fj_object_iter) option" where
  "object_iter_nexts t 0 s iter key key_len val = Some ([], s, iter)"
| "object_iter_nexts t (Suc n) s iter key key_len val =
     (case fj_object_iter_next t s iter key key_len val of
        None \<Rightarrow> None
      | Some (avail, s', iter', key', key_len', val') \<Rightarrow>
          (case object_iter_nexts t n s' iter' key' key_len' val' of
             None \<Rightarrow> None
           | Some (rs, s'', iter'') \<Rightarrow>
               Some ((avail, if avail then Some (key', key_len', value_element s' val') else None) # rs,
                     s'', iter'')))"

text \<open>
  The calls that hand back a newly derived Value, with their arguments. \<open>derive\<close>
  performs one on thread \<open>t\<close> with non-null out-parameters and gives the Value handed
  back (\<open>None\<close> when the call did not succeed) and the new state.
\<close>

datatype deriv_call =
    Get_field fj_value "string option"
  | Get_field_len fj_value "string option" nat
  | Get_index fj_value nat
  | Array_iter_next fj_array_iter
  | Object_iter_next fj_object_iter

fun call_pool :: "deriv_call \<Rightarrow> pool" where
  "call_pool (Get_field v key) = GET_FIELD"
| "call_pool (Get_field_len v key key_len) = GET_FIELD_LEN"
| "call_pool (Get_index v idx) = GET_INDEX"
| "call_pool (Array_iter_next iter) = ARRAY_ITER_NEXT"
| "call_pool (Object_iter_next iter) = OBJECT_ITER_NEXT"

fun derive :: "tid \<Rightarrow> state \<Rightarrow> deriv_call \<Rightarrow> (fj_value option \<times> state) option" where
  "derive t s (Get_field v key) =
     (case fj_value_get_field t s v key (Some null_value) of
        None \<Rightarrow> None
      | Some (err, s', out) \<Rightarrow> Some (if err = FJ_SUCCESS then out else None, s'))"
| "derive t s (Get_field_len v key key_len) =
     (case fj_value_get_field_len t s v key key_len (Some null_value) of
        None \<Rightarrow> None
      | Some (err, s', out) \<Rightarrow> Some (if err = FJ_SUCCESS then out else None, s'))"
| "derive t s (Get_index v idx) =
     (case fj_value_get_index t s v idx (Some null_value) of
        None \<Rightarrow> None
      | Some (err, s', out) \<Rightarrow> Some (if err = FJ_SUCCESS then out else None, s'))"
| "derive t s (Array_iter_next iter) =
     (case fj_array_iter_next t s iter (Some null_value) of
        None \<Rightarrow> None
      | Some (avail, s', iter', out) \<Rightarrow> Some (if avail then out else None, s'))"
| "derive t s (Object_iter_next iter) =
     (case fj_object_iter_next t s iter (Some []) (Some 0) (Some null_value) of
        None \<Rightarrow> None
      | Some (avail, s', iter', key, key_len, val) \<Rightarrow> Some (if avail then val else None, s'))"

text \<open>
  A sequence of such calls, each on its own thread: the result lists the thread and the
  function of every call that derived a Value, and gives the final state.
\<close>

fun derive_all :: "state \<Rightarrow> (tid \<times> deriv_call) list \<Rightarrow> ((tid \<times> pool) list \<times> state) option" where
  "derive_all s [] = Some ([], s)"
| "derive_all s ((t, c) # cs) =
     (case derive t s c of
        None \<Rightarrow> None
      | Some (out, s') \<Rightarrow>
          (case derive_all s' cs of
             None \<Rightarrow> None
           | Some (ds, s'') \<Rightarrow>
               Some ((case out of None \<Rightarrow> ds | Some _ \<Rightarrow> (t, call_pool c) # ds), s'')))"

text \<open>
  The calls that change the state. \<open>operator new\<close> never returns the address of a live
  object, so a parse that is handed one is no behaviour of the program.
\<close>

datatype api_call =
    Parse "doc_id option" fj_parser "string option" nat "fj_document option"
  | Parse_padded "doc_id option" fj_parser "string option" nat "fj_document option"
  | Document_free fj_document
  | Derive tid deriv_call

definition fresh :: "state \<Rightarrow> doc_id option \<Rightarrow> bool" where
  "fresh s new_doc = (case new_doc of None \<Rightarrow> True | Some d \<Rightarrow> docs s d = None)"

fun api_step :: "engine \<Rightarrow> state \<Rightarrow> api_call \<Rightarrow> state option" where
  "api_step eng s (Parse new_doc p json len dout) =
     (if fresh s new_doc
      then (case fj_parser_parse eng new_doc s p json len dout of (err, s', dout') \<Rightarrow> Some s')
      else None)"
| "api_step eng s (Parse_padded new_doc p json len dout) =
     (if fresh s new_doc
      then (case fj_parser_parse_padded eng new_doc s p json len dout of (err, s', dout') \<Rightarrow> Some s')
      else None)"
| "api_step eng s (Document_free dh) = fj_document_free s dh"
| "api_step eng s (Derive t c) = map_option snd (derive t s c)"

fun api_run :: "engine \<Rightarrow> state \<Rightarrow> api_call list \<Rightarrow> state option" where
  "api_run eng s [] = Some s"
| "api_run eng s (c # cs) =
     (case api_step eng s c of None \<Rightarrow> None | Some s' \<Rightarrow> api_run eng s' cs)"

subsection \<open>A concrete document\<close>

text \<open>
  The tree of \<open>{"a":1,"b":[true,null,"x"]}\<close>, an engine that parses every input to it,
  and the state in which the document at address 0 holds it.
\<close>

definition example_root :: element where
  "example_root =
     E_object [(''a'', E_int64 1), (''b'', E_array [E_bool True, E_null, E_string ''x''])]"

definition example_engine :: engine where
  "example_engine =
     \<lparr>engine_parse = (\<lambda>c buf len. (example_root, SUCCESS)),
      engine_minify = (\<lambda>buf len. ((buf, len), SUCCESS))\<rparr>"

definition example_state :: state where
  \<open>example_state =
     fst (snd (fj_parser_parse example_engine (Some 0) state0
                 (fj_parser_new False 0) (Some ''{"a":1,"b":[true,null,"x"]}'') 27 (Some None)))\<close>

text \<open>
  The state after thread 0 looked up the field \<open>b\<close> of the root: cell 1 of the statics of
  \<open>fj_value_get_field\<close> holds the array.
\<close>

definition example_array_state :: state where
  "example_array_state =
     snd (store_element 0 GET_FIELD (E_array [E_bool True, E_null, E_string ''x'']) example_state)"

text \<open>The state after thread 0 then looked up index 0 of that array.\<close>

definition example_index_state :: state where
  "example_index_state = snd (store_element 0 GET_INDEX (E_bool True) example_array_state)"

subsection \<open>The invariant of the document heap\<close>

text \<open>Every live document has \<open>FJ_SUCCESS\<close> in its error slot.\<close>

definition docs_ok :: "state \<Rightarrow> bool" where
  "docs_ok s = (\<forall>d dc. docs s d = Some dc \<longrightarrow> error dc = FJ_SUCCESS)"

section \<open>Properties\<close>

subsection \<open>Helper facts\<close>

lemma map_error_kinds: "map_error e \<in> set fj_error_kinds"
  by (cases e) (simp_all add: fj_error_kinds_def)

lemma map_error_success: "map_error e = FJ_SUCCESS \<longleftrightarrow> e = SUCCESS"
  by (cases e) (simp_all add: fj_error_defs)

lemma length_messages: "length messages = 31"
  by (simp add: messages_def)

lemma example_state_eq:
  "example_state =
     state0\<lparr>docs := (docs state0)(0 := Some \<lparr>root = example_root, error = FJ_SUCCESS\<rparr>)\<rparr>"
  by (simp add: example_state_def fj_parser_parse_def fj_parser_new_def example_engine_def)

lemma get_element_example_root: "get_element example_state (Root 0) = Some example_root"
  by (simp add: example_state_eq get_element_def state0_def)

lemma example_array_read:
  "get_element example_array_state (Stored 0 GET_FIELD 1) =
     Some (E_array [E_bool True, E_null, E_string ''x''])"
  by (simp add: example_array_state_def store_element_def Let_def get_element_def
        example_state_eq state0_def ring0_def)

lemma get_element_example_array_root:
  "get_element example_array_state (Root 0) = Some example_root"
  by (simp add: example_array_state_def store_element_def Let_def get_element_def
        example_state_eq state0_def)

subsection \<open>The error mapping\<close>

lemma upt31:
  "[0..<31] = [0,1,2,3,4,5,6,7,8,9,10,11,12,13,14,15,16,17,18,19,20,21,22,23,24,25,26,27,28,29,30::nat]"
  by (simp add: upt_rec)

lemma sint_trailing: "sint FJ_ERROR_TRAILING_CONTENT = 30"
  by (simp add: FJ_ERROR_TRAILING_CONTENT_def)

lemma sint_unknown: "sint FJ_ERROR_UNKNOWN = 255"
  by (simp add: FJ_ERROR_UNKNOWN_def)

lemma sint_nonneg_uint: "0 \<le> sint (err :: 32 word) \<Longrightarrow> sint err = uint err"
proof -
  assume nn: "0 \<le> sint err"
  have "sint err < 2 ^ 31" using sint_less [of err] by simp
  then have "sint err < 2 ^ 32" by simp
  with nn have "take_bit 32 (sint err) = sint err"
    by (simp add: take_bit_int_eq_self)
  with uint_sint [of err] show ?thesis by simp
qed

lemma fj_error_kinds_known: "unat (err :: fj_error) \<le> 30 \<Longrightarrow> err \<in> set fj_error_kinds"
proof -
  assume "unat err \<le> 30"
  then have "unat err \<in> set [0..<31]" by simp
  then have "unat err \<in> set [0,1,2,3,4,5,6,7,8,9,10,11,12,13,14,15,16,17,18,19,20,21,22,23,24,25,26,27,28,29,30::nat]"
    by (simp only: upt31)
  then show ?thesis
    unfolding fj_error_kinds_def fj_error_defs by (auto simp: word_unat_eq_iff)
qed

lemma fj_error_message_nonneg:
  "0 \<le> sint err \<Longrightarrow> \<exists>m. fj_error_message err = Some m"
  by (simp add: fj_error_message_def length_messages sint_trailing sint_unknown) arith

lemma fj_error_message_kind:
  "err \<le> FJ_ERROR_TRAILING_CONTENT \<Longrightarrow> fj_error_message err = Some (messages ! unat err)"
proof -
  assume "err \<le> FJ_ERROR_TRAILING_CONTENT"
  then have u: "unat err \<le> 30"
    by (simp add: FJ_ERROR_TRAILING_CONTENT_def word_le_nat_alt)
  then have "int (unat err) \<le> int 30" by (simp only: of_nat_le_iff)
  then have le: "uint err \<le> 30" by simp
  then have lt: "uint err < 2 ^ 31" by simp
  have "- (2 ^ 31) \<le> uint err"
    by (rule order_trans [of _ 0]) simp_all
  then have "signed_take_bit 31 (uint err) = uint err"
    using lt by (rule signed_take_bit_int_eq_self)
  with sint_uint [of err] have "sint err = uint err" by simp
  with u le show ?thesis
    by (simp add: fj_error_message_def length_messages sint_trailing sint_unknown)
qed


text \<open>
  Claim C5 against the code. \<open>map_error\<close> is total: it sends every engine error code to
  one of the enumerators of \<open>fj_error\<close>, each of the 31 codes it names to the enumerator
  of the same name and every other code to \<open>FJ_ERROR_UNKNOWN\<close>. \<open>fj_error_message\<close>
  returns a string for every value that is not negative as an \<open>int\<close>: the entry of the
  message table for the enumerators up to \<open>FJ_ERROR_TRAILING_CONTENT\<close>, the string
  \<open>Unknown error\<close> for \<open>FJ_ERROR_UNKNOWN\<close> and for every such value that is no
  enumerator. For a value that is negative as an \<open>int\<close> (bit 31 set) neither test of the
  function holds and the table is read at a negative subscript, outside its bounds: no
  message string is returned there.
\<close>

theorem C5_error_mapping_and_messages:
  "map_error e \<in> set fj_error_kinds \<and>
   map_error SUCCESS = FJ_SUCCESS \<and>
   map_error CAPACITY = FJ_ERROR_CAPACITY \<and>
   map_error MEMALLOC = FJ_ERROR_MEMALLOC \<and>
   map_error TAPE_ERROR = FJ_ERROR_TAPE_ERROR \<and>
   map_error DEPTH_ERROR = FJ_ERROR_DEPTH_ERROR \<and>
   map_error STRING_ERROR = FJ_ERROR_STRING_ERROR \<and>
   map_error T_ATOM_ERROR = FJ_ERROR_T_ATOM_ERROR \<and>
   map_error F_ATOM_ERROR = FJ_ERROR_F_ATOM_ERROR \<and>
   map_error N_ATOM_ERROR = FJ_ERROR_N_ATOM_ERROR \<and>
   map_error NUMBER_ERROR = FJ_ERROR_NUMBER_ERROR \<and>
   map_error UTF8_ERROR = FJ_ERROR_UTF8_ERROR \<and>
   map_error UNINITIALIZED = FJ_ERROR_UNINITIALIZED \<and>
   map_error EMPTY = FJ_ERROR_EMPTY \<and>
   map_error UNESCAPED_CHARS = FJ_ERROR_UNESCAPED_CHARS \<and>
   map_error UNCLOSED_STRING = FJ_ERROR_UNCLOSED_STRING \<and>
   map_error UNSUPPORTED_ARCHITECTURE = FJ_ERROR_UNSUPPORTED_ARCH \<and>
   map_error INCORRECT_TYPE = FJ_ERROR_INCORRECT_TYPE \<and>
   map_error NUMBER_OUT_OF_RANGE = FJ_ERROR_NUMBER_OUT_OF_RANGE \<and>
   map_error INDEX_OUT_OF_BOUNDS = FJ_ERROR_INDEX_OUT_OF_BOUNDS \<and>
   map_error NO_SUCH_FIELD = FJ_ERROR_NO_SUCH_FIELD \<and>
   map_error IO_ERROR = FJ_ERROR_IO_ERROR \<and>
   map_error INVALID_JSON_POINTER = FJ_ERROR_INVALID_JSON_POINTER \<and>
   map_error INVALID_URI_FRAGMENT = FJ_ERROR_INVALID_URI_FRAGMENT \<and>
   map_error UNEXPECTED_ERROR = FJ_ERROR_UNEXPECTED_ERROR \<and>
   map_error PARSER_IN_USE = FJ_ERROR_PARSER_IN_USE \<and>
   map_error OUT_OF_ORDER_ITERATION = FJ_ERROR_OUT_OF_ORDER_ITERATION \<and>
   map_error INSUFFICIENT_PADDING = FJ_ERROR_INSUFFICIENT_PADDING \<and>
   map_error INCOMPLETE_ARRAY_OR_OBJECT = FJ_ERROR_INCOMPLETE_ARRAY_OR_OBJECT \<and>
   map_error SCALAR_DOCUMENT_AS_VALUE = FJ_ERROR_SCALAR_DOCUMENT_AS_VALUE \<and>
   map_error OUT_OF_BOUNDS = FJ_ERROR_OUT_OF_BOUNDS \<and>
   map_error TRAILING_CONTENT = FJ_ERROR_TRAILING_CONTENT \<and>
   map_error (OTHER_ERROR_CODE n) = FJ_ERROR_UNKNOWN \<and>
   (0 \<le> sint err \<longrightarrow> (\<exists>m. fj_error_message err = Some m)) \<and>
   (0 \<le> sint err \<and> err \<notin> set fj_error_kinds \<longrightarrow> fj_error_message err = Some ''Unknown error'') \<and>
   fj_error_message FJ_ERROR_UNKNOWN = Some ''Unknown error'' \<and>
   (k \<le> FJ_ERROR_TRAILING_CONTENT \<longrightarrow> fj_error_message k = Some (messages ! unat k)) \<and>
   (sint neg < 0 \<longrightarrow> fj_error_message neg = None)"
proof -
  have kinds: "map_error e \<in> set fj_error_kinds"
    by (rule map_error_kinds)
  have tot: "0 \<le> sint err \<longrightarrow> (\<exists>m. fj_error_message err = Some m)"
    by (simp add: fj_error_message_nonneg)
  have unk: "0 \<le> sint err \<and> err \<notin> set fj_error_kinds \<longrightarrow>
      fj_error_message err = Some ''Unknown error''"
  proof
    assume h: "0 \<le> sint err \<and> err \<notin> set fj_error_kinds"
    with fj_error_kinds_known [of err] have "\<not> unat err \<le> 30" by blast
    then have "30 < unat err" by (simp only: not_le)
    then have "int 30 < int (unat err)" by (simp only: of_nat_less_iff)
    then have "30 < uint err" by simp
    moreover from h have "sint err = uint err" by (simp add: sint_nonneg_uint)
    ultimately have "30 < sint err" by simp
    then show "fj_error_message err = Some ''Unknown error''"
      by (simp add: fj_error_message_def sint_trailing)
  qed
  have u255: "fj_error_message FJ_ERROR_UNKNOWN = Some ''Unknown error''"
    by (simp add: fj_error_message_def)
  have kind: "k \<le> FJ_ERROR_TRAILING_CONTENT \<longrightarrow> fj_error_message k = Some (messages ! unat k)"
    by (simp add: fj_error_message_kind)
  have neg: "sint neg < 0 \<longrightarrow> fj_error_message neg = None"
    by (simp add: fj_error_message_def sint_trailing sint_unknown)
  from kinds tot unk u255 kind neg show ?thesis
    by simp
qed

theorem C5_error_mapping_and_messages_witness:
  "sint (4294967040 :: 32 word) < 0 \<and> fj_error_message 4294967040 = None \<and>
   0 \<le> sint (1000 :: 32 word) \<and> 1000 \<notin> set fj_error_kinds \<and>
   fj_error_message 1000 = Some ''Unknown error'' \<and>
   19 \<le> FJ_ERROR_TRAILING_CONTENT \<and> fj_error_message 19 = Some ''Object field not found'' \<and>
   map_error (OTHER_ERROR_CODE 7) = FJ_ERROR_UNKNOWN"
  using C5_error_mapping_and_messages [of SUCCESS 7 1000 19 4294967040]
  by (simp add: fj_error_kinds_def fj_error_defs messages_def)

subsection \<open>Padded parsing\<close>

text \<open>
  Claim C8. For every parser, buffer, length and out-parameter (and every engine, state
  and allocation outcome), \<open>fj_parser_parse_padded\<close> returns the same error code, the
  same state and the same document handle as \<open>fj_parser_parse\<close>.
\<close>

theorem C8_parse_padded_same:
  "fj_parser_parse_padded eng new_doc s p json len dout =
   fj_parser_parse eng new_doc s p json len dout"
  by (simp add: fj_parser_parse_padded_def)

subsection \<open>The type of a null handle\<close>

text \<open>
  Claim C10. \<open>fj_value_type\<close> returns a type tag, never an error: \<open>FJ_TYPE_NULL\<close> for every
  Value whose payload pointer is null, the mapped type of the element for every Value
  that points to one, and \<open>map_type\<close> gives \<open>FJ_TYPE_NULL\<close> for every element type it does
  not name. So the type query answers the same for a null handle as for a Value that
  points to a JSON null.
\<close>

theorem C10_value_type_null:
  "(impl v = None \<longrightarrow> fj_value_type s v = Some FJ_TYPE_NULL) \<and>
   map_type (OTHER_ELEMENT_TYPE n) = FJ_TYPE_NULL \<and>
   (impl w = Some a \<and> get_element s a = Some e \<longrightarrow>
      fj_value_type s w = Some (map_type (element_type_of e))) \<and>
   (impl v = None \<and> impl w = Some a \<and> get_element s a = Some E_null \<longrightarrow>
      fj_value_type s v = fj_value_type s w)"
  by (simp add: fj_value_type_def)

theorem C10_value_type_null_witness:
  "impl (fj_document_root None) = None \<and>
   fj_value_type state0 (fj_document_root None) = Some FJ_TYPE_NULL \<and>
   impl \<lparr>impl = Some (Root 0), doc = Some 0\<rparr> = Some (Root 0) \<and>
   get_element (state0\<lparr>docs := (docs state0)(0 := Some \<lparr>root = E_null, error = FJ_SUCCESS\<rparr>)\<rparr>)
     (Root 0) = Some E_null \<and>
   fj_value_type (state0\<lparr>docs := (docs state0)(0 := Some \<lparr>root = E_null, error = FJ_SUCCESS\<rparr>)\<rparr>)
     (fj_document_root None)
   = fj_value_type (state0\<lparr>docs := (docs state0)(0 := Some \<lparr>root = E_null, error = FJ_SUCCESS\<rparr>)\<rparr>)
     \<lparr>impl = Some (Root 0), doc = Some 0\<rparr>"
  using C10_value_type_null [of "fj_document_root None"
     "state0\<lparr>docs := (docs state0)(0 := Some \<lparr>root = E_null, error = FJ_SUCCESS\<rparr>)\<rparr>" 0
      "\<lparr>impl = Some (Root 0), doc = Some 0\<rparr>" "Root 0" E_null]
    C10_value_type_null [of "fj_document_root None" state0 0
      "\<lparr>impl = Some (Root 0), doc = Some 0\<rparr>" "Root 0" E_null]
  by (simp add: fj_document_root_def get_element_def state0_def)

subsection \<open>Null handles and null out-parameters\<close>

lemma map_error_nonzero: "e \<noteq> SUCCESS \<Longrightarrow> map_error e \<noteq> 0"
  using map_error_success [of e] by (simp add: FJ_SUCCESS_def)

lemma parse_null:
  "fj_parser_parse eng new_doc s None json len dout = (FJ_ERROR_UNINITIALIZED, s, dout)"
  "fj_parser_parse eng new_doc s p None len dout = (FJ_ERROR_UNINITIALIZED, s, dout)"
  "fj_parser_parse eng new_doc s p json len None = (FJ_ERROR_UNINITIALIZED, s, None)"
  by (simp_all add: fj_parser_parse_def split: option.splits)

lemma parse_bad_alloc: "fst (fj_parser_parse eng None s p json len dout) \<noteq> FJ_SUCCESS"
  by (simp add: fj_parser_parse_def map_error_success split: option.splits prod.splits)
     (simp add: fj_error_defs)

lemma extraction_null:
  "fj_value_get_bool s (v\<lparr>impl := None\<rparr>) bout = Some (FJ_ERROR_UNINITIALIZED, bout)"
  "fj_value_get_bool s v None = Some (FJ_ERROR_UNINITIALIZED, None)"
  "fj_value_get_int64 s (v\<lparr>impl := None\<rparr>) wout = Some (FJ_ERROR_UNINITIALIZED, wout)"
  "fj_value_get_int64 s v None = Some (FJ_ERROR_UNINITIALIZED, None)"
  "fj_value_get_uint64 s (v\<lparr>impl := None\<rparr>) wout = Some (FJ_ERROR_UNINITIALIZED, wout)"
  "fj_value_get_uint64 s v None = Some (FJ_ERROR_UNINITIALIZED, None)"
  "fj_value_get_double s (v\<lparr>impl := None\<rparr>) wout = Some (FJ_ERROR_UNINITIALIZED, wout)"
  "fj_value_get_double s v None = Some (FJ_ERROR_UNINITIALIZED, None)"
  "fj_value_get_string s (v\<lparr>impl := None\<rparr>) sout lout = Some (FJ_ERROR_UNINITIALIZED, sout, lout)"
  "fj_value_get_string s v None lout = Some (FJ_ERROR_UNINITIALIZED, None, lout)"
  "fj_value_get_string s v sout None = Some (FJ_ERROR_UNINITIALIZED, sout, None)"
  by (simp_all add: fj_value_get_bool_def fj_value_get_int64_def fj_value_get_uint64_def
        fj_value_get_double_def fj_value_get_string_def split: option.splits)

lemma object_null:
  "fj_value_get_field t s (v\<lparr>impl := None\<rparr>) key out = Some (FJ_ERROR_UNINITIALIZED, s, out)"
  "fj_value_get_field t s v None out = Some (FJ_ERROR_UNINITIALIZED, s, out)"
  "fj_value_get_field t s v key None = Some (FJ_ERROR_UNINITIALIZED, s, None)"
  "fj_value_get_field_len t s (v\<lparr>impl := None\<rparr>) key key_len out =
     Some (FJ_ERROR_UNINITIALIZED, s, out)"
  "fj_value_get_field_len t s v None key_len out = Some (FJ_ERROR_UNINITIALIZED, s, out)"
  "fj_value_get_field_len t s v key key_len None = Some (FJ_ERROR_UNINITIALIZED, s, None)"
  "fj_value_object_size s (v\<lparr>impl := None\<rparr>) nout = Some (FJ_ERROR_UNINITIALIZED, nout)"
  "fj_value_object_size s v None = Some (FJ_ERROR_UNINITIALIZED, None)"
  by (simp_all add: fj_value_get_field_def fj_value_get_field_len_def fj_value_object_size_def
        split: option.splits)

lemma array_null:
  "fj_value_get_index t s (v\<lparr>impl := None\<rparr>) idx out = Some (FJ_ERROR_UNINITIALIZED, s, out)"
  "fj_value_get_index t s v idx None = Some (FJ_ERROR_UNINITIALIZED, s, None)"
  "fj_value_array_size s (v\<lparr>impl := None\<rparr>) nout = Some (FJ_ERROR_UNINITIALIZED, nout)"
  "fj_value_array_size s v None = Some (FJ_ERROR_UNINITIALIZED, None)"
  by (simp_all add: fj_value_get_index_def fj_value_array_size_def split: option.splits)

lemma iter_new_null:
  "fj_array_iter_new bad_alloc s (v\<lparr>impl := None\<rparr>) aiter = Some (FJ_ERROR_UNINITIALIZED, aiter)"
  "fj_array_iter_new bad_alloc s v None = Some (FJ_ERROR_UNINITIALIZED, None)"
  "fj_object_iter_new bad_alloc s (v\<lparr>impl := None\<rparr>) oiter = Some (FJ_ERROR_UNINITIALIZED, oiter)"
  "fj_object_iter_new bad_alloc s v None = Some (FJ_ERROR_UNINITIALIZED, None)"
  by (simp_all add: fj_array_iter_new_def fj_object_iter_new_def split: option.splits)

lemma iter_new_bad_alloc:
  "map_option fst (fj_array_iter_new True s v aiter) \<noteq> Some FJ_SUCCESS"
  "map_option fst (fj_object_iter_new True s v oiter) \<noteq> Some FJ_SUCCESS"
  by (auto simp: fj_array_iter_new_def fj_object_iter_new_def map_error_nonzero fj_error_defs
        split: option.splits prod.splits)

lemma utility_null:
  "fj_minify eng None len nout = (FJ_ERROR_UNINITIALIZED, None, nout)"
  "fj_minify eng json len None = (FJ_ERROR_UNINITIALIZED, json, None)"
  "fj_validate eng None len = FJ_ERROR_UNINITIALIZED"
  by (simp_all add: fj_minify_def fj_validate_def split: option.splits)

lemma parse_new_throws:
  "snd (engine_parse eng (parser ps) buf len) = SUCCESS \<Longrightarrow>
   fj_parser_parse eng None s (Some ps) (Some buf) len (Some d0) =
     (FJ_ERROR_UNEXPECTED_ERROR, s, Some None)"
  by (cases "engine_parse eng (parser ps) buf len") (simp add: fj_parser_parse_def)

lemma array_iter_new_throws:
  "impl v = Some a \<Longrightarrow> get_element s a = Some (E_array xs) \<Longrightarrow>
   fj_array_iter_new True s v (Some it0) = Some (FJ_ERROR_MEMALLOC, Some it0)"
  by (simp add: fj_array_iter_new_def)

lemma object_iter_new_throws:
  "impl v = Some a \<Longrightarrow> get_element s a = Some (E_object fs) \<Longrightarrow>
   fj_object_iter_new True s v (Some it0) = Some (FJ_ERROR_MEMALLOC, Some it0)"
  by (simp add: fj_object_iter_new_def)

lemma iter_new_defined:
  "impl v = Some a \<Longrightarrow> get_element s a = Some e \<Longrightarrow>
   (\<exists>err it. fj_array_iter_new bad_alloc s v aiter = Some (err, it)) \<and>
   (\<exists>err it. fj_object_iter_new bad_alloc s v oiter = Some (err, it))"
  by (simp add: fj_array_iter_new_def fj_object_iter_new_def split: option.splits prod.splits)

text \<open>
  Claim C7. Every operation that returns an error status (parse, documentError, the five
  extractions, getField, getFieldWithLength, objectSize, getIndex, arraySize, the two
  iterator constructors, minify, validate) returns \<open>FJ_ERROR_UNINITIALIZED\<close> when its
  handle is null (for a Value: its payload pointer) or a required out-parameter or
  buffer is null, whatever the engine, the state and the other arguments are, and
  leaves the state and the out-parameters as they were. No operation raises: when
  \<open>new\<close> throws, parse (after the engine succeeded) returns \<open>FJ_ERROR_UNEXPECTED_ERROR\<close>
  with the out handle set to null, the iterator constructors on an array (an object)
  return \<open>FJ_ERROR_MEMALLOC\<close> and leave the out-parameter as it was, and \<open>fj_parser_new\<close>
  returns the null handle; on every Value that points to an element the iterator
  constructors return a status, whether \<open>new\<close> throws or not.
\<close>

theorem C7_null_arguments_uninitialized:
  "(snd (engine_parse eng (parser ps) buf len) = SUCCESS \<longrightarrow>
      fj_parser_parse eng None s (Some ps) (Some buf) len (Some d0) =
        (FJ_ERROR_UNEXPECTED_ERROR, s, Some None)) \<and>
   (impl va = Some a \<and> get_element s a = Some (E_array xs) \<longrightarrow>
      fj_array_iter_new True s va (Some ai0) = Some (FJ_ERROR_MEMALLOC, Some ai0)) \<and>
   (impl vo = Some b \<and> get_element s b = Some (E_object fs) \<longrightarrow>
      fj_object_iter_new True s vo (Some oi0) = Some (FJ_ERROR_MEMALLOC, Some oi0)) \<and>
   (impl w = Some c \<and> get_element s c = Some e \<longrightarrow>
      (\<exists>err it. fj_array_iter_new bad_alloc s w aiter = Some (err, it)) \<and>
      (\<exists>err it. fj_object_iter_new bad_alloc s w oiter = Some (err, it))) \<and>
   fj_parser_parse eng new_doc s None json len dout = (FJ_ERROR_UNINITIALIZED, s, dout) \<and>
   fj_parser_parse eng new_doc s p None len dout = (FJ_ERROR_UNINITIALIZED, s, dout) \<and>
   fj_parser_parse eng new_doc s p json len None = (FJ_ERROR_UNINITIALIZED, s, None) \<and>
   fj_document_error s None = Some FJ_ERROR_UNINITIALIZED \<and>
   fj_value_get_bool s (v\<lparr>impl := None\<rparr>) bout = Some (FJ_ERROR_UNINITIALIZED, bout) \<and>
   fj_value_get_bool s v None = Some (FJ_ERROR_UNINITIALIZED, None) \<and>
   fj_value_get_int64 s (v\<lparr>impl := None\<rparr>) wout = Some (FJ_ERROR_UNINITIALIZED, wout) \<and>
   fj_value_get_int64 s v None = Some (FJ_ERROR_UNINITIALIZED, None) \<and>
   fj_value_get_uint64 s (v\<lparr>impl := None\<rparr>) wout = Some (FJ_ERROR_UNINITIALIZED, wout) \<and>
   fj_value_get_uint64 s v None = Some (FJ_ERROR_UNINITIALIZED, None) \<and>
   fj_value_get_double s (v\<lparr>impl := None\<rparr>) wout = Some (FJ_ERROR_UNINITIALIZED, wout) \<and>
   fj_value_get_double s v None = Some (FJ_ERROR_UNINITIALIZED, None) \<and>
   fj_value_get_string s (v\<lparr>impl := None\<rparr>) sout lout = Some (FJ_ERROR_UNINITIALIZED, sout, lout) \<and>
   fj_value_get_string s v None lout = Some (FJ_ERROR_UNINITIALIZED, None, lout) \<and>
   fj_value_get_string s v sout None = Some (FJ_ERROR_UNINITIALIZED, sout, None) \<and>
   fj_value_get_field t s (v\<lparr>impl := None\<rparr>) key out = Some (FJ_ERROR_UNINITIALIZED, s, out) \<and>
   fj_value_get_field t s v None out = Some (FJ_ERROR_UNINITIALIZED, s, out) \<and>
   fj_value_get_field t s v key None = Some (FJ_ERROR_UNINITIALIZED, s, None) \<and>
   fj_value_get_field_len t s (v\<lparr>impl := None\<rparr>) key key_len out =
     Some (FJ_ERROR_UNINITIALIZED, s, out) \<and>
   fj_value_get_field_len t s v None key_len out = Some (FJ_ERROR_UNINITIALIZED, s, out) \<and>
   fj_value_get_field_len t s v key key_len None = Some (FJ_ERROR_UNINITIALIZED, s, None) \<and>
   fj_value_object_size s (v\<lparr>impl := None\<rparr>) nout = Some (FJ_ERROR_UNINITIALIZED, nout) \<and>
   fj_value_object_size s v None = Some (FJ_ERROR_UNINITIALIZED, None) \<and>
   fj_value_get_index t s (v\<lparr>impl := None\<rparr>) idx out = Some (FJ_ERROR_UNINITIALIZED, s, out) \<and>
   fj_value_get_index t s v idx None = Some (FJ_ERROR_UNINITIALIZED, s, None) \<and>
   fj_value_array_size s (v\<lparr>impl := None\<rparr>) nout = Some (FJ_ERROR_UNINITIALIZED, nout) \<and>
   fj_value_array_size s v None = Some (FJ_ERROR_UNINITIALIZED, None) \<and>
   fj_array_iter_new bad_alloc s (v\<lparr>impl := None\<rparr>) aiter = Some (FJ_ERROR_UNINITIALIZED, aiter) \<and>
   fj_array_iter_new bad_alloc s v None = Some (FJ_ERROR_UNINITIALIZED, None) \<and>
   fj_object_iter_new bad_alloc s (v\<lparr>impl := None\<rparr>) oiter = Some (FJ_ERROR_UNINITIALIZED, oiter) \<and>
   fj_object_iter_new bad_alloc s v None = Some (FJ_ERROR_UNINITIALIZED, None) \<and>
   fj_minify eng None len nout = (FJ_ERROR_UNINITIALIZED, None, nout) \<and>
   fj_minify eng json len None = (FJ_ERROR_UNINITIALIZED, json, None) \<and>
   fj_validate eng None len = FJ_ERROR_UNINITIALIZED \<and>
   fj_parser_new True max_capacity = None \<and>
   fst (fj_parser_parse eng None s p json len dout) \<noteq> FJ_SUCCESS \<and>
   map_option fst (fj_array_iter_new True s v aiter) \<noteq> Some FJ_SUCCESS \<and>
   map_option fst (fj_object_iter_new True s v oiter) \<noteq> Some FJ_SUCCESS"
proof -
  have nulls: "fj_parser_parse eng new_doc s None json len dout = (FJ_ERROR_UNINITIALIZED, s, dout) \<and>
   fj_parser_parse eng new_doc s p None len dout = (FJ_ERROR_UNINITIALIZED, s, dout) \<and>
   fj_parser_parse eng new_doc s p json len None = (FJ_ERROR_UNINITIALIZED, s, None) \<and>
   fj_document_error s None = Some FJ_ERROR_UNINITIALIZED \<and>
   fj_value_get_bool s (v\<lparr>impl := None\<rparr>) bout = Some (FJ_ERROR_UNINITIALIZED, bout) \<and>
   fj_value_get_bool s v None = Some (FJ_ERROR_UNINITIALIZED, None) \<and>
   fj_value_get_int64 s (v\<lparr>impl := None\<rparr>) wout = Some (FJ_ERROR_UNINITIALIZED, wout) \<and>
   fj_value_get_int64 s v None = Some (FJ_ERROR_UNINITIALIZED, None) \<and>
   fj_value_get_uint64 s (v\<lparr>impl := None\<rparr>) wout = Some (FJ_ERROR_UNINITIALIZED, wout) \<and>
   fj_value_get_uint64 s v None = Some (FJ_ERROR_UNINITIALIZED, None) \<and>
   fj_value_get_double s (v\<lparr>impl := None\<rparr>) wout = Some (FJ_ERROR_UNINITIALIZED, wout) \<and>
   fj_value_get_double s v None = Some (FJ_ERROR_UNINITIALIZED, None) \<and>
   fj_value_get_string s (v\<lparr>impl := None\<rparr>) sout lout = Some (FJ_ERROR_UNINITIALIZED, sout, lout) \<and>
   fj_value_get_string s v None lout = Some (FJ_ERROR_UNINITIALIZED, None, lout) \<and>
   fj_value_get_string s v sout None = Some (FJ_ERROR_UNINITIALIZED, sout, None) \<and>
   fj_value_get_field t s (v\<lparr>impl := None\<rparr>) key out = Some (FJ_ERROR_UNINITIALIZED, s, out) \<and>
   fj_value_get_field t s v None out = Some (FJ_ERROR_UNINITIALIZED, s, out) \<and>
   fj_value_get_field t s v key None = Some (FJ_ERROR_UNINITIALIZED, s, None) \<and>
   fj_value_get_field_len t s (v\<lparr>impl := None\<rparr>) key key_len out =
     Some (FJ_ERROR_UNINITIALIZED, s, out) \<and>
   fj_value_get_field_len t s v None key_len out = Some (FJ_ERROR_UNINITIALIZED, s, out) \<and>
   fj_value_get_field_len t s v key key_len None = Some (FJ_ERROR_UNINITIALIZED, s, None) \<and>
   fj_value_object_size s (v\<lparr>impl := None\<rparr>) nout = Some (FJ_ERROR_UNINITIALIZED, nout) \<and>
   fj_value_object_size s v None = Some (FJ_ERROR_UNINITIALIZED, None) \<and>
   fj_value_get_index t s (v\<lparr>impl := None\<rparr>) idx out = Some (FJ_ERROR_UNINITIALIZED, s, out) \<and>
   fj_value_get_index t s v idx None = Some (FJ_ERROR_UNINITIALIZED, s, None) \<and>
   fj_value_array_size s (v\<lparr>impl := None\<rparr>) nout = Some (FJ_ERROR_UNINITIALIZED, nout) \<and>
   fj_value_array_size s v None = Some (FJ_ERROR_UNINITIALIZED, None) \<and>
   fj_array_iter_new bad_alloc s (v\<lparr>impl := None\<rparr>) aiter = Some (FJ_ERROR_UNINITIALIZED, aiter) \<and>
   fj_array_iter_new bad_alloc s v None = Some (FJ_ERROR_UNINITIALIZED, None) \<and>
   fj_object_iter_new bad_alloc s (v\<lparr>impl := None\<rparr>) oiter = Some (FJ_ERROR_UNINITIALIZED, oiter) \<and>
   fj_object_iter_new bad_alloc s v None = Some (FJ_ERROR_UNINITIALIZED, None) \<and>
   fj_minify eng None len nout = (FJ_ERROR_UNINITIALIZED, None, nout) \<and>
   fj_minify eng json len None = (FJ_ERROR_UNINITIALIZED, json, None) \<and>
   fj_validate eng None len = FJ_ERROR_UNINITIALIZED \<and>
   fj_parser_new True max_capacity = None \<and>
   fst (fj_parser_parse eng None s p json len dout) \<noteq> FJ_SUCCESS \<and>
   map_option fst (fj_array_iter_new True s v aiter) \<noteq> Some FJ_SUCCESS \<and>
   map_option fst (fj_object_iter_new True s v oiter) \<noteq> Some FJ_SUCCESS"
    using parse_bad_alloc [of eng s p json len dout]
      iter_new_bad_alloc(1) [of s v aiter] iter_new_bad_alloc(2) [of s v oiter]
    by (simp add: parse_null extraction_null object_null array_null iter_new_null utility_null
          fj_document_error_def fj_parser_new_def)
  have p: "snd (engine_parse eng (parser ps) buf len) = SUCCESS \<longrightarrow>
      fj_parser_parse eng None s (Some ps) (Some buf) len (Some d0) =
        (FJ_ERROR_UNEXPECTED_ERROR, s, Some None)"
    by (simp add: parse_new_throws)
  have a: "impl va = Some a \<and> get_element s a = Some (E_array xs) \<longrightarrow>
      fj_array_iter_new True s va (Some ai0) = Some (FJ_ERROR_MEMALLOC, Some ai0)"
    by (simp add: array_iter_new_throws)
  have o: "impl vo = Some b \<and> get_element s b = Some (E_object fs) \<longrightarrow>
      fj_object_iter_new True s vo (Some oi0) = Some (FJ_ERROR_MEMALLOC, Some oi0)"
    by (simp add: object_iter_new_throws)
  have d: "impl w = Some c \<and> get_element s c = Some e \<longrightarrow>
      (\<exists>err it. fj_array_iter_new bad_alloc s w aiter = Some (err, it)) \<and>
      (\<exists>err it. fj_object_iter_new bad_alloc s w oiter = Some (err, it))"
    using iter_new_defined [of w c s e bad_alloc aiter oiter] by blast
  from p a o d nulls show ?thesis
    by (intro conjI) blast+
qed

theorem C7_null_arguments_uninitialized_witness:
  "snd (engine_parse example_engine (parser \<lparr>parser = None\<rparr>) ''{}'' 2) = SUCCESS \<and>
   fj_parser_parse example_engine None example_array_state (Some \<lparr>parser = None\<rparr>) (Some ''{}'') 2
       (Some (Some 7)) = (FJ_ERROR_UNEXPECTED_ERROR, example_array_state, Some None) \<and>
   impl \<lparr>impl = Some (Stored 0 GET_FIELD 1), doc = Some 0\<rparr> = Some (Stored 0 GET_FIELD 1) \<and>
   get_element example_array_state (Stored 0 GET_FIELD 1) =
     Some (E_array [E_bool True, E_null, E_string ''x'']) \<and>
   fj_array_iter_new True example_array_state \<lparr>impl = Some (Stored 0 GET_FIELD 1), doc = Some 0\<rparr>
       (Some None) = Some (FJ_ERROR_MEMALLOC, Some None) \<and>
   impl (fj_document_root (Some 0)) = Some (Root 0) \<and>
   get_element example_array_state (Root 0) = Some example_root \<and>
   fj_object_iter_new True example_array_state (fj_document_root (Some 0)) (Some None) =
     Some (FJ_ERROR_MEMALLOC, Some None) \<and>
   fj_array_iter_new True example_array_state (fj_document_root (Some 0)) (Some None) =
     Some (FJ_ERROR_INCORRECT_TYPE, Some None)"
proof -
  let ?va = "\<lparr>impl = Some (Stored 0 GET_FIELD 1), doc = Some 0\<rparr>"
  let ?vo = "fj_document_root (Some 0)"
  note T = C7_null_arguments_uninitialized [where eng = example_engine and s = example_array_state
      and ps = "\<lparr>parser = None\<rparr>" and buf = "''{}''" and len = 2 and ?d0.0 = "Some 7"
      and va = ?va and a = "Stored 0 GET_FIELD 1" and xs = "[E_bool True, E_null, E_string ''x'']"
      and ?ai0.0 = None
      and vo = ?vo and b = "Root 0"
      and fs = "[(''a'', E_int64 1), (''b'', E_array [E_bool True, E_null, E_string ''x''])]"
      and ?oi0.0 = None]
  have h0: "snd (engine_parse example_engine (parser \<lparr>parser = None\<rparr>) ''{}'' 2) = SUCCESS"
    by (simp add: example_engine_def)
  have h1: "impl ?va = Some (Stored 0 GET_FIELD 1)"
    by simp
  have h2: "get_element example_array_state (Stored 0 GET_FIELD 1) =
      Some (E_array [E_bool True, E_null, E_string ''x''])"
    by (rule example_array_read)
  have h3: "impl ?vo = Some (Root 0)"
    by (simp add: fj_document_root_def)
  have h4: "get_element example_array_state (Root 0) = Some example_root"
    by (rule get_element_example_array_root)
  have h4': "get_element example_array_state (Root 0) =
      Some (E_object [(''a'', E_int64 1), (''b'', E_array [E_bool True, E_null, E_string ''x''])])"
    using h4 by (simp add: example_root_def)
  from mp [OF T [THEN conjunct1] h0] have c0: "fj_parser_parse example_engine None example_array_state
       (Some \<lparr>parser = None\<rparr>) (Some ''{}'') 2 (Some (Some 7)) =
       (FJ_ERROR_UNEXPECTED_ERROR, example_array_state, Some None)" .
  from mp [OF T [THEN conjunct2, THEN conjunct1] conjI [OF h1 h2]] have c1: "fj_array_iter_new True example_array_state ?va (Some None) =
       Some (FJ_ERROR_MEMALLOC, Some None)" .
  from mp [OF T [THEN conjunct2, THEN conjunct2, THEN conjunct1] conjI [OF h3 h4']] have c2: "fj_object_iter_new True example_array_state ?vo (Some None) =
       Some (FJ_ERROR_MEMALLOC, Some None)" .
  have c3: "fj_array_iter_new True example_array_state ?vo (Some None) =
       Some (FJ_ERROR_INCORRECT_TYPE, Some None)"
    using h3 h4' by (simp add: fj_array_iter_new_def)
  show ?thesis
    by (intro conjI h0 c0 h1 h2 c1 h3 h4 c2 c3)
qed

subsection \<open>Field lookup and field probe\<close>

lemma at_key_absent: "k \<notin> fst ` set fs \<Longrightarrow> at_key fs k = (E_null, NO_SUCH_FIELD)"
  by (induction fs) auto

lemma has_field_iff_get_field:
  "fj_value_has_field s v key =
   map_option (\<lambda>r. fst r = FJ_SUCCESS) (fj_value_get_field t s v key (Some out))"
  by (auto simp: fj_value_has_field_def fj_value_get_field_def map_error_success
        FJ_ERROR_UNINITIALIZED_def FJ_SUCCESS_def map_error_nonzero
        split: option.splits prod.splits)

text \<open>
  Claim C6. For every state, Value \<open>v\<close> and key, \<open>fj_value_has_field\<close> returns true exactly
  when \<open>fj_value_get_field\<close> with a non-null out-parameter returns \<open>FJ_SUCCESS\<close> (and
  the one is undefined exactly when the other is). For a Value that points to an object
  and a key that none of its fields has, \<open>fj_value_get_field\<close> returns
  \<open>FJ_ERROR_NO_SUCH_FIELD\<close>, leaving state and out-parameter as they were, and
  \<open>fj_value_has_field\<close> returns false.
\<close>

theorem C6_has_field_iff_get_field:
  "fj_value_has_field s v key =
     map_option (\<lambda>r. fst r = FJ_SUCCESS) (fj_value_get_field t s v key (Some out)) \<and>
   (impl v = Some a \<and> get_element s a = Some (E_object fs) \<and> k \<notin> fst ` set fs \<longrightarrow>
      fj_value_get_field t s v (Some k) (Some out) = Some (FJ_ERROR_NO_SUCH_FIELD, s, Some out) \<and>
      fj_value_has_field s v (Some k) = Some False)"
proof (intro conjI impI)
  show "fj_value_has_field s v key =
     map_option (\<lambda>r. fst r = FJ_SUCCESS) (fj_value_get_field t s v key (Some out))"
    by (rule has_field_iff_get_field)
next
  assume h: "impl v = Some a \<and> get_element s a = Some (E_object fs) \<and> k \<notin> fst ` set fs"
  then show "fj_value_get_field t s v (Some k) (Some out) =
      Some (FJ_ERROR_NO_SUCH_FIELD, s, Some out)"
    by (simp add: fj_value_get_field_def at_key_absent)
  from h show "fj_value_has_field s v (Some k) = Some False"
    by (simp add: fj_value_has_field_def at_key_absent)
qed

theorem C6_has_field_iff_get_field_witness:
  "impl (fj_document_root (Some 0)) = Some (Root 0) \<and>
   get_element example_state (Root 0) =
     Some (E_object [(''a'', E_int64 1), (''b'', E_array [E_bool True, E_null, E_string ''x''])]) \<and>
   ''c'' \<notin> fst ` set [(''a'', E_int64 1), (''b'', E_array [E_bool True, E_null, E_string ''x''])] \<and>
   fj_value_get_field 0 example_state (fj_document_root (Some 0)) (Some ''c'') (Some null_value)
     = Some (FJ_ERROR_NO_SUCH_FIELD, example_state, Some null_value) \<and>
   fj_value_has_field example_state (fj_document_root (Some 0)) (Some ''c'') = Some False \<and>
   fj_value_has_field example_state (fj_document_root (Some 0)) (Some ''a'') = Some True"
  using C6_has_field_iff_get_field [of example_state "fj_document_root (Some 0)" "Some ''c''" 0
      null_value "Root 0"
      "[(''a'', E_int64 1), (''b'', E_array [E_bool True, E_null, E_string ''x''])]" "''c''"]
  by (simp add: fj_document_root_def get_element_example_root example_root_def
        fj_value_has_field_def)

subsection \<open>Atomicity of parse\<close>

lemma parse_nonnull_cases:
  "fj_parser_parse eng new_doc s (Some ps) (Some buf) len (Some d0) = (err, s', dout') \<Longrightarrow>
     (err = FJ_SUCCESS \<and>
        (\<exists>d r. new_doc = Some d \<and> dout' = Some (Some d) \<and>
               engine_parse eng (parser ps) buf len = (r, SUCCESS) \<and>
               s' = s\<lparr>docs := (docs s)(d := Some \<lparr>root = r, error = FJ_SUCCESS\<rparr>)\<rparr>)) \<or>
     (err \<noteq> FJ_SUCCESS \<and> dout' = Some None \<and> s' = s)"
  by (auto simp: fj_parser_parse_def map_error_nonzero FJ_ERROR_UNEXPECTED_ERROR_def FJ_SUCCESS_def
        split: prod.splits option.splits if_splits)

text \<open>
  Claim C3, as stated, fails: with a null parser (or a null buffer) the function returns
  \<open>FJ_ERROR_UNINITIALIZED\<close> before it writes \<open>*doc\<close>, so the caller's handle keeps what it
  held, here the non-null handle 7.
\<close>

theorem C3_parse_null_parser_counterexample:
  "fj_parser_parse example_engine (Some 0) state0 None (Some ''{}'') 2 (Some (Some 7))
     = (FJ_ERROR_UNINITIALIZED, state0, Some (Some 7)) \<and>
   FJ_ERROR_UNINITIALIZED \<noteq> FJ_SUCCESS \<and> Some (Some (7::nat)) \<noteq> Some None"
  by (simp add: fj_parser_parse_def fj_error_defs)

text \<open>
  Claim C3, amended. For every call with a non-null parser, buffer and out-parameter,
  parse is atomic: either it returns \<open>FJ_SUCCESS\<close>, the engine reported success, and the
  out handle is the address of a new document that holds the engine's tree and
  \<open>FJ_SUCCESS\<close> in its error slot; or it returns another status, the out handle is set to
  null and the state is unchanged (no document was made). A call with a null parser,
  buffer or out-parameter returns \<open>FJ_ERROR_UNINITIALIZED\<close>, makes no document and does not
  write the out handle.
\<close>

theorem C3_parse_atomic:
  "(fj_parser_parse eng new_doc s (Some ps) (Some buf) len (Some d0) = (err, s', dout') \<longrightarrow>
     (err = FJ_SUCCESS \<and>
        (\<exists>d r. new_doc = Some d \<and> dout' = Some (Some d) \<and>
               engine_parse eng (parser ps) buf len = (r, SUCCESS) \<and>
               s' = s\<lparr>docs := (docs s)(d := Some \<lparr>root = r, error = FJ_SUCCESS\<rparr>)\<rparr>)) \<or>
     (err \<noteq> FJ_SUCCESS \<and> dout' = Some None \<and> s' = s)) \<and>
   (p = None \<or> json = None \<or> dout = None \<longrightarrow>
      fj_parser_parse eng new_doc s p json len dout = (FJ_ERROR_UNINITIALIZED, s, dout))"
  using parse_nonnull_cases [of eng new_doc s ps buf len d0 err s' dout']
  by (auto simp: parse_null)

theorem C3_parse_atomic_witness:
  "fj_parser_parse example_engine (Some 0) state0 (Some \<lparr>parser = None\<rparr>) (Some ''{}'') 2 (Some None)
     = (FJ_SUCCESS,
        state0\<lparr>docs := (docs state0)(0 := Some \<lparr>root = example_root, error = FJ_SUCCESS\<rparr>)\<rparr>,
        Some (Some 0)) \<and>
   fj_parser_parse example_engine (Some 0) state0 (Some \<lparr>parser = None\<rparr>) None 2 (Some (Some 7))
     = (FJ_ERROR_UNINITIALIZED, state0, Some (Some 7))"
  using C3_parse_atomic [of example_engine "Some 0" state0 "\<lparr>parser = None\<rparr>" "''{}''" 2 None
      FJ_SUCCESS
      "state0\<lparr>docs := (docs state0)(0 := Some \<lparr>root = example_root, error = FJ_SUCCESS\<rparr>)\<rparr>"
      "Some (Some 0)" "Some \<lparr>parser = None\<rparr>" None "Some (Some 7)"]
  by (simp add: fj_parser_parse_def example_engine_def)

subsection \<open>The error slot of a document\<close>

lemma store_element_docs: "store_element t p e s = (a, s') \<Longrightarrow> docs s' = docs s"
  by (auto simp: store_element_def Let_def)

lemma derive_docs: "derive t s c = Some (out, s') \<Longrightarrow> docs s' = docs s"
proof (cases c)
  case (Get_field v key)
  assume "derive t s c = Some (out, s')"
  with Get_field show ?thesis
    by (auto simp: fj_value_get_field_def dest: store_element_docs
          split: option.splits prod.splits if_splits)
next
  case (Get_field_len v key key_len)
  assume "derive t s c = Some (out, s')"
  with Get_field_len show ?thesis
    by (auto simp: fj_value_get_field_len_def dest: store_element_docs
          split: option.splits prod.splits if_splits)
next
  case (Get_index v idx)
  assume "derive t s c = Some (out, s')"
  with Get_index show ?thesis
    by (auto simp: fj_value_get_index_def dest: store_element_docs
          split: option.splits prod.splits if_splits)
next
  case (Array_iter_next iter)
  assume "derive t s c = Some (out, s')"
  with Array_iter_next show ?thesis
    by (auto simp: fj_array_iter_next_def dest: store_element_docs
          split: option.splits prod.splits if_splits)
next
  case (Object_iter_next iter)
  assume "derive t s c = Some (out, s')"
  with Object_iter_next show ?thesis
    by (auto simp: fj_object_iter_next_def dest: store_element_docs
          split: option.splits prod.splits if_splits)
qed

lemma parse_docs_ok:
  "docs_ok s \<Longrightarrow> fj_parser_parse eng new_doc s p json len dout = (err, s', dout') \<Longrightarrow> docs_ok s'"
  by (auto simp: fj_parser_parse_def docs_ok_def split: option.splits prod.splits if_splits)

lemma api_step_docs_ok: "docs_ok s \<Longrightarrow> api_step eng s c = Some s' \<Longrightarrow> docs_ok s'"
proof (cases c)
  case (Parse new_doc p json len dout)
  assume "docs_ok s" "api_step eng s c = Some s'"
  with Parse show ?thesis
    by (auto split: if_splits prod.splits dest: parse_docs_ok)
next
  case (Parse_padded new_doc p json len dout)
  assume "docs_ok s" "api_step eng s c = Some s'"
  with Parse_padded show ?thesis
    by (auto simp: fj_parser_parse_padded_def split: if_splits prod.splits dest: parse_docs_ok)
next
  case (Document_free dh)
  assume "docs_ok s" "api_step eng s c = Some s'"
  with Document_free show ?thesis
    by (auto simp: fj_document_free_def docs_ok_def split: option.splits if_splits)
next
  case (Derive t dc)
  assume "docs_ok s" "api_step eng s c = Some s'"
  with Derive show ?thesis
    by (auto simp: docs_ok_def dest: derive_docs)
qed

lemma api_run_docs_ok: "docs_ok s \<Longrightarrow> api_run eng s cs = Some s' \<Longrightarrow> docs_ok s'"
  by (induction cs arbitrary: s) (auto split: option.splits dest: api_step_docs_ok)

lemma docs_ok_state0: "docs_ok state0"
  by (simp add: docs_ok_def state0_def)

text \<open>
  Claim C9. In every state that the calls of the interface reach from the initial state
  (parses, padded parses, document frees and value derivations, with any arguments and
  any engine), every live document has \<open>FJ_SUCCESS\<close> in its error slot, and
  \<open>fj_document_error\<close> on its handle returns \<open>FJ_SUCCESS\<close>.
\<close>

theorem C9_document_error_success:
  "api_run eng state0 cs = Some s \<Longrightarrow> docs s d = Some dc \<Longrightarrow>
     error dc = FJ_SUCCESS \<and> fj_document_error s (Some d) = Some FJ_SUCCESS"
  using api_run_docs_ok [OF docs_ok_state0, of eng cs s]
  by (simp add: docs_ok_def fj_document_error_def)

theorem C9_document_error_success_witness:
  "api_run example_engine state0
     [Parse (Some 0) (fj_parser_new False 0) (Some ''{}'') 2 (Some None),
      Parse (Some 1) (fj_parser_new False 0) (Some ''{}'') 2 (Some None),
      Derive 0 (Get_field (fj_document_root (Some 0)) (Some ''a'')),
      Document_free (Some 1)] =
     Some (snd (store_element 0 GET_FIELD (E_int64 1) example_state)) \<and>
   docs (snd (store_element 0 GET_FIELD (E_int64 1) example_state)) 0 =
     Some \<lparr>root = example_root, error = FJ_SUCCESS\<rparr> \<and>
   fj_document_error (snd (store_element 0 GET_FIELD (E_int64 1) example_state)) (Some 0) =
     Some FJ_SUCCESS"
  using C9_document_error_success [of example_engine
     "[Parse (Some 0) (fj_parser_new False 0) (Some ''{}'') 2 (Some None),
      Parse (Some 1) (fj_parser_new False 0) (Some ''{}'') 2 (Some None),
      Derive 0 (Get_field (fj_document_root (Some 0)) (Some ''a'')),
      Document_free (Some 1)]"
     "snd (store_element 0 GET_FIELD (E_int64 1) example_state)" 0
     "\<lparr>root = example_root, error = FJ_SUCCESS\<rparr>"]
  by (simp add: fresh_def state0_def fj_parser_parse_def fj_parser_new_def example_engine_def
        fj_document_root_def fj_value_get_field_def get_element_def example_root_def
        store_element_def fj_document_free_def example_state_eq Let_def null_value_def
        FJ_SUCCESS_def fun_upd_twist)

subsection \<open>Iterators\<close>

lemma store_element_read: "store_element t p e s = (a, s') \<Longrightarrow> get_element s' a = Some e"
  by (auto simp: store_element_def Let_def get_element_def)

lemma array_iter_next_end:
  "fj_array_iter_next t s (Some \<lparr>array = xs, current = length xs, iter_end = length xs\<rparr>) (Some out) =
     Some (False, s, Some \<lparr>array = xs, current = length xs, iter_end = length xs\<rparr>, Some out)"
  by (simp add: fj_array_iter_next_def)

lemma array_iter_next_item:
  assumes "c < length xs"
  shows "\<exists>s' out'. fj_array_iter_next t s (Some \<lparr>array = xs, current = c, iter_end = length xs\<rparr>) (Some out) =
     Some (True, s', Some \<lparr>array = xs, current = Suc c, iter_end = length xs\<rparr>, Some out') \<and>
     value_element s' (Some out') = Some (xs ! c)"
proof -
  obtain cell s' where st: "store_element t ARRAY_ITER_NEXT (xs ! c) s = (cell, s')"
    by (cases "store_element t ARRAY_ITER_NEXT (xs ! c) s")
  from store_element_read [OF st]
  have "value_element s' (Some \<lparr>impl = Some cell, doc = None\<rparr>) = Some (xs ! c)"
    by (simp add: value_element_def)
  with assms st show ?thesis
    by (simp add: fj_array_iter_next_def)
qed

lemma array_iter_nexts_from:
  "c \<le> length xs \<Longrightarrow>
   \<exists>s'. array_iter_nexts t n s (Some \<lparr>array = xs, current = c, iter_end = length xs\<rparr>) (Some out) =
     Some (map (\<lambda>x. (True, Some x)) (take n (drop c xs)) @ replicate (n - (length xs - c)) (False, None),
           s', Some \<lparr>array = xs, current = min (c + n) (length xs), iter_end = length xs\<rparr>)"
proof (induction n arbitrary: c s out)
  case 0
  then show ?case by simp
next
  case (Suc n)
  show ?case
  proof (cases "c = length xs")
    case True
    from Suc.IH [of c s out] True obtain s' where
      "array_iter_nexts t n s (Some \<lparr>array = xs, current = length xs, iter_end = length xs\<rparr>) (Some out) =
         Some (replicate n (False, None), s',
               Some \<lparr>array = xs, current = length xs, iter_end = length xs\<rparr>)"
      by auto
    with True show ?thesis
      by (simp add: array_iter_next_end)
  next
    case False
    with Suc.prems have lt: "c < length xs" by simp
    from array_iter_next_item [OF lt, of t s out] obtain s1 out1 where
      step: "fj_array_iter_next t s (Some \<lparr>array = xs, current = c, iter_end = length xs\<rparr>) (Some out) =
        Some (True, s1, Some \<lparr>array = xs, current = Suc c, iter_end = length xs\<rparr>, Some out1)"
      and item: "value_element s1 (Some out1) = Some (xs ! c)"
      by blast
    from lt have "Suc c \<le> length xs" by simp
    from Suc.IH [OF this, of s1 out1] obtain s' where
      rest: "array_iter_nexts t n s1 (Some \<lparr>array = xs, current = Suc c, iter_end = length xs\<rparr>)
               (Some out1) =
        Some (map (\<lambda>x. (True, Some x)) (take n (drop (Suc c) xs)) @
                replicate (n - (length xs - Suc c)) (False, None),
              s', Some \<lparr>array = xs, current = min (Suc c + n) (length xs), iter_end = length xs\<rparr>)"
      by blast
    from lt have "drop c xs = xs ! c # drop (Suc c) xs"
      by (simp add: Cons_nth_drop_Suc)
    moreover from lt have "Suc n - (length xs - c) = n - (length xs - Suc c)" by arith
    ultimately show ?thesis
      using step item rest by simp
  qed
qed

lemma object_iter_next_end:
  "fj_object_iter_next t s (Some \<lparr>object = fs, ocurrent = length fs, oiter_end = length fs\<rparr>)
      (Some key) (Some key_len) (Some val) =
     Some (False, s, Some \<lparr>object = fs, ocurrent = length fs, oiter_end = length fs\<rparr>,
           Some key, Some key_len, Some val)"
  by (simp add: fj_object_iter_next_def)

lemma object_iter_next_item:
  assumes "c < length fs"
  shows "\<exists>s' val'. fj_object_iter_next t s (Some \<lparr>object = fs, ocurrent = c, oiter_end = length fs\<rparr>)
                      (Some key) (Some key_len) (Some val) =
     Some (True, s', Some \<lparr>object = fs, ocurrent = Suc c, oiter_end = length fs\<rparr>,
           Some (fst (fs ! c)), Some (length (fst (fs ! c))), Some val') \<and>
     value_element s' (Some val') = Some (snd (fs ! c))"
proof -
  obtain cell s' where st: "store_element t OBJECT_ITER_NEXT (snd (fs ! c)) s = (cell, s')"
    by (cases "store_element t OBJECT_ITER_NEXT (snd (fs ! c)) s")
  from store_element_read [OF st]
  have "value_element s' (Some \<lparr>impl = Some cell, doc = None\<rparr>) = Some (snd (fs ! c))"
    by (simp add: value_element_def)
  with assms st show ?thesis
    by (cases "fs ! c") (simp add: fj_object_iter_next_def)
qed

lemma object_iter_nexts_from:
  "c \<le> length fs \<Longrightarrow>
   \<exists>s'. object_iter_nexts t n s (Some \<lparr>object = fs, ocurrent = c, oiter_end = length fs\<rparr>)
           (Some key) (Some key_len) (Some val) =
     Some (map (\<lambda>f. (True, Some (Some (fst f), Some (length (fst f)), Some (snd f))))
             (take n (drop c fs)) @ replicate (n - (length fs - c)) (False, None),
           s', Some \<lparr>object = fs, ocurrent = min (c + n) (length fs), oiter_end = length fs\<rparr>)"
proof (induction n arbitrary: c s key key_len val)
  case 0
  then show ?case by simp
next
  case (Suc n)
  show ?case
  proof (cases "c = length fs")
    case True
    from Suc.IH [of c s key key_len val] True obtain s' where
      "object_iter_nexts t n s (Some \<lparr>object = fs, ocurrent = length fs, oiter_end = length fs\<rparr>)
          (Some key) (Some key_len) (Some val) =
         Some (replicate n (False, None), s',
               Some \<lparr>object = fs, ocurrent = length fs, oiter_end = length fs\<rparr>)"
      by auto
    with True show ?thesis
      by (simp add: object_iter_next_end)
  next
    case False
    with Suc.prems have lt: "c < length fs" by simp
    from object_iter_next_item [OF lt, of t s key key_len val] obtain s1 val1 where
      step: "fj_object_iter_next t s (Some \<lparr>object = fs, ocurrent = c, oiter_end = length fs\<rparr>)
               (Some key) (Some key_len) (Some val) =
        Some (True, s1, Some \<lparr>object = fs, ocurrent = Suc c, oiter_end = length fs\<rparr>,
              Some (fst (fs ! c)), Some (length (fst (fs ! c))), Some val1)"
      and item: "value_element s1 (Some val1) = Some (snd (fs ! c))"
      by blast
    from lt have "Suc c \<le> length fs" by simp
    from Suc.IH [OF this, of s1 "fst (fs ! c)" "length (fst (fs ! c))" val1] obtain s' where
      rest: "object_iter_nexts t n s1 (Some \<lparr>object = fs, ocurrent = Suc c, oiter_end = length fs\<rparr>)
               (Some (fst (fs ! c))) (Some (length (fst (fs ! c)))) (Some val1) =
        Some (map (\<lambda>f. (True, Some (Some (fst f), Some (length (fst f)), Some (snd f))))
                (take n (drop (Suc c) fs)) @ replicate (n - (length fs - Suc c)) (False, None),
              s', Some \<lparr>object = fs, ocurrent = min (Suc c + n) (length fs), oiter_end = length fs\<rparr>)"
      by blast
    from lt have "drop c fs = fs ! c # drop (Suc c) fs"
      by (simp add: Cons_nth_drop_Suc)
    moreover from lt have "Suc n - (length fs - c) = n - (length fs - Suc c)" by arith
    ultimately show ?thesis
      using step item rest by simp
  qed
qed

lemma array_iter_next_forward:
  "fj_array_iter_next t s (Some it) out = Some (b, s', iter', out') \<Longrightarrow>
     \<exists>it'. iter' = Some it' \<and> array it' = array it \<and> iter_end it' = iter_end it \<and>
           current it' = (if b then current it + 1 else current it)"
  by (auto simp: fj_array_iter_next_def split: option.splits prod.splits if_splits)

lemma object_iter_next_forward:
  "fj_object_iter_next t s (Some it) key key_len val = Some (b, s', iter', key', key_len', val') \<Longrightarrow>
     \<exists>it'. iter' = Some it' \<and> object it' = object it \<and> oiter_end it' = oiter_end it \<and>
           ocurrent it' = (if b then ocurrent it + 1 else ocurrent it)"
  by (auto simp: fj_object_iter_next_def split: option.splits prod.splits if_splits)

lemma array_iter_new_ok:
  "impl v = Some a \<Longrightarrow> get_element s a = Some (E_array xs) \<Longrightarrow>
   fj_array_iter_new False s v (Some i0) =
     Some (FJ_SUCCESS, Some (Some \<lparr>array = xs, current = 0, iter_end = length xs\<rparr>))"
  by (simp add: fj_array_iter_new_def)

lemma object_iter_new_ok:
  "impl v = Some a \<Longrightarrow> get_element s a = Some (E_object fs) \<Longrightarrow>
   fj_object_iter_new False s v (Some i0) =
     Some (FJ_SUCCESS, Some (Some \<lparr>object = fs, ocurrent = 0, oiter_end = length fs\<rparr>))"
  by (simp add: fj_object_iter_new_def)

lemma array_size_ok:
  "impl v = Some a \<Longrightarrow> get_element s a = Some (E_array xs) \<Longrightarrow>
   fj_value_array_size s v (Some n0) = Some (FJ_SUCCESS, Some (length xs))"
  by (simp add: fj_value_array_size_def)

lemma object_size_ok:
  "impl v = Some a \<Longrightarrow> get_element s a = Some (E_object fs) \<Longrightarrow>
   fj_value_object_size s v (Some n0) = Some (FJ_SUCCESS, Some (length fs))"
  by (simp add: fj_value_object_size_def)

text \<open>
  Claim C4. For a Value that points to an array with the children \<open>xs\<close>,
  \<open>fj_value_array_size\<close> gives \<open>length xs\<close>, and an iterator made on it by
  \<open>fj_array_iter_new\<close> answers \<open>n\<close> successive calls of \<open>fj_array_iter_next\<close> (with
  non-null out-parameter) as follows: the first \<open>length xs\<close> calls return true and hand
  back, in order, a Value through which the caller reads the next child; every later
  call returns false. After the calls the cursor stands at \<open>min n (length xs)\<close>. The same
  holds for \<open>fj_value_object_size\<close>, \<open>fj_object_iter_new\<close> and \<open>fj_object_iter_next\<close>,
  which also give the key of each field and its length. A single call, on any iterator, leaves the cursor where it
  is when it returns false and moves it forward by one when it returns true; it never
  changes the end or the container.
\<close>

theorem C4_iterators_yield_each_child_once:
  "(impl v = Some a \<and> get_element s a = Some (E_array xs) \<longrightarrow>
      fj_value_array_size s v (Some 0) = Some (FJ_SUCCESS, Some (length xs)) \<and>
      fj_array_iter_new False s v (Some i0) =
        Some (FJ_SUCCESS, Some (Some \<lparr>array = xs, current = 0, iter_end = length xs\<rparr>)) \<and>
      (\<exists>s'. array_iter_nexts t n s (Some \<lparr>array = xs, current = 0, iter_end = length xs\<rparr>) (Some out) =
         Some (map (\<lambda>x. (True, Some x)) (take n xs) @ replicate (n - length xs) (False, None),
               s', Some \<lparr>array = xs, current = min n (length xs), iter_end = length xs\<rparr>))) \<and>
   (impl v = Some a \<and> get_element s a = Some (E_object fs) \<longrightarrow>
      fj_value_object_size s v (Some 0) = Some (FJ_SUCCESS, Some (length fs)) \<and>
      fj_object_iter_new False s v (Some j0) =
        Some (FJ_SUCCESS, Some (Some \<lparr>object = fs, ocurrent = 0, oiter_end = length fs\<rparr>)) \<and>
      (\<exists>s'. object_iter_nexts t n s (Some \<lparr>object = fs, ocurrent = 0, oiter_end = length fs\<rparr>)
              (Some key) (Some key_len) (Some out) =
         Some (map (\<lambda>f. (True, Some (Some (fst f), Some (length (fst f)), Some (snd f)))) (take n fs) @
                 replicate (n - length fs) (False, None),
               s', Some \<lparr>object = fs, ocurrent = min n (length fs), oiter_end = length fs\<rparr>))) \<and>
   (fj_array_iter_next t s (Some ait) aout = Some (b, s1, aiter', aout') \<longrightarrow>
      (\<exists>it'. aiter' = Some it' \<and> array it' = array ait \<and> iter_end it' = iter_end ait \<and>
             current it' = (if b then current ait + 1 else current ait))) \<and>
   (fj_object_iter_next t s (Some oit) okey okey_len oval =
      Some (b, s1, oiter', okey', okey_len', oval') \<longrightarrow>
      (\<exists>it'. oiter' = Some it' \<and> object it' = object oit \<and> oiter_end it' = oiter_end oit \<and>
             ocurrent it' = (if b then ocurrent oit + 1 else ocurrent oit)))"
proof (intro conjI impI)
  assume h: "impl v = Some a \<and> get_element s a = Some (E_array xs)"
  then show "fj_value_array_size s v (Some 0) = Some (FJ_SUCCESS, Some (length xs))"
    by (simp add: array_size_ok)
  from h show "fj_array_iter_new False s v (Some i0) =
        Some (FJ_SUCCESS, Some (Some \<lparr>array = xs, current = 0, iter_end = length xs\<rparr>))"
    by (simp add: array_iter_new_ok)
  show "\<exists>s'. array_iter_nexts t n s (Some \<lparr>array = xs, current = 0, iter_end = length xs\<rparr>) (Some out) =
         Some (map (\<lambda>x. (True, Some x)) (take n xs) @ replicate (n - length xs) (False, None),
               s', Some \<lparr>array = xs, current = min n (length xs), iter_end = length xs\<rparr>)"
    using array_iter_nexts_from [of 0 xs t n s out] by simp
next
  assume h: "impl v = Some a \<and> get_element s a = Some (E_object fs)"
  then show "fj_value_object_size s v (Some 0) = Some (FJ_SUCCESS, Some (length fs))"
    by (simp add: object_size_ok)
  from h show "fj_object_iter_new False s v (Some j0) =
        Some (FJ_SUCCESS, Some (Some \<lparr>object = fs, ocurrent = 0, oiter_end = length fs\<rparr>))"
    by (simp add: object_iter_new_ok)
  show "\<exists>s'. object_iter_nexts t n s (Some \<lparr>object = fs, ocurrent = 0, oiter_end = length fs\<rparr>)
              (Some key) (Some key_len) (Some out) =
         Some (map (\<lambda>f. (True, Some (Some (fst f), Some (length (fst f)), Some (snd f)))) (take n fs) @
                 replicate (n - length fs) (False, None),
               s', Some \<lparr>object = fs, ocurrent = min n (length fs), oiter_end = length fs\<rparr>)"
    using object_iter_nexts_from [of 0 fs t n s key key_len out] by simp
next
  assume "fj_array_iter_next t s (Some ait) aout = Some (b, s1, aiter', aout')"
  then show "\<exists>it'. aiter' = Some it' \<and> array it' = array ait \<and> iter_end it' = iter_end ait \<and>
             current it' = (if b then current ait + 1 else current ait)"
    by (rule array_iter_next_forward)
next
  assume "fj_object_iter_next t s (Some oit) okey okey_len oval =
      Some (b, s1, oiter', okey', okey_len', oval')"
  then show "\<exists>it'. oiter' = Some it' \<and> object it' = object oit \<and> oiter_end it' = oiter_end oit \<and>
             ocurrent it' = (if b then ocurrent oit + 1 else ocurrent oit)"
    by (rule object_iter_next_forward)
qed

theorem C4_iterators_yield_each_child_once_witness:
  "impl \<lparr>impl = Some (Stored 0 GET_FIELD 1), doc = Some 0\<rparr> = Some (Stored 0 GET_FIELD 1) \<and>
   get_element example_array_state (Stored 0 GET_FIELD 1) =
     Some (E_array [E_bool True, E_null, E_string ''x'']) \<and>
   (\<exists>s'. array_iter_nexts 0 5 example_array_state
           (Some \<lparr>array = [E_bool True, E_null, E_string ''x''], current = 0, iter_end = 3\<rparr>)
           (Some null_value) =
         Some ([(True, Some (E_bool True)), (True, Some E_null), (True, Some (E_string ''x'')),
                (False, None), (False, None)],
               s', Some \<lparr>array = [E_bool True, E_null, E_string ''x''], current = 3, iter_end = 3\<rparr>)) \<and>
   impl (fj_document_root (Some 0)) = Some (Root 0) \<and>
   get_element example_array_state (Root 0) =
     Some (E_object [(''a'', E_int64 1), (''b'', E_array [E_bool True, E_null, E_string ''x''])]) \<and>
   (\<exists>s'. object_iter_nexts 0 3 example_array_state
           (Some \<lparr>object = [(''a'', E_int64 1), (''b'', E_array [E_bool True, E_null, E_string ''x''])],
                  ocurrent = 0, oiter_end = 2\<rparr>)
           (Some []) (Some 0) (Some null_value) =
         Some ([(True, Some (Some ''a'', Some 1, Some (E_int64 1))),
                (True, Some (Some ''b'', Some 1, Some (E_array [E_bool True, E_null, E_string ''x'']))),
                (False, None)],
               s', Some \<lparr>object = [(''a'', E_int64 1), (''b'', E_array [E_bool True, E_null, E_string ''x''])],
                         ocurrent = 2, oiter_end = 2\<rparr>)) \<and>
   fj_array_iter_next 0 example_array_state
       (Some \<lparr>array = [E_null], current = 1, iter_end = 1\<rparr>) (Some null_value) =
     Some (False, example_array_state, Some \<lparr>array = [E_null], current = 1, iter_end = 1\<rparr>,
           Some null_value) \<and>
   fj_object_iter_next 0 example_array_state
       (Some \<lparr>object = [], ocurrent = 0, oiter_end = 0\<rparr>) (Some []) (Some 0) (Some null_value) =
     Some (False, example_array_state, Some \<lparr>object = [], ocurrent = 0, oiter_end = 0\<rparr>,
           Some [], Some 0, Some null_value)"
proof -
  let ?xs = "[E_bool True, E_null, E_string ''x'']"
  let ?fs = "[(''a'', E_int64 1), (''b'', E_array ?xs)]"
  let ?v = "\<lparr>impl = Some (Stored 0 GET_FIELD 1), doc = Some 0\<rparr>"
  let ?ait = "\<lparr>array = [E_null], current = 1, iter_end = 1\<rparr>"
  let ?oit = "\<lparr>object = [], ocurrent = 0, oiter_end = 0\<rparr>"
  have h1: "impl ?v = Some (Stored 0 GET_FIELD 1) \<and>
      get_element example_array_state (Stored 0 GET_FIELD 1) = Some (E_array ?xs)"
    using example_array_read by simp
  have h2: "impl (fj_document_root (Some 0)) = Some (Root 0) \<and>
      get_element example_array_state (Root 0) = Some (E_object ?fs)"
    by (simp add: fj_document_root_def get_element_example_array_root example_root_def)
  have e1: "fj_array_iter_next 0 example_array_state (Some ?ait) (Some null_value) =
      Some (False, example_array_state, Some ?ait, Some null_value)"
    by (simp add: fj_array_iter_next_def)
  have e2: "fj_object_iter_next 0 example_array_state (Some ?oit) (Some []) (Some 0) (Some null_value) =
      Some (False, example_array_state, Some ?oit, Some [], Some 0, Some null_value)"
    by (simp add: fj_object_iter_next_def)
  have l1: "map (\<lambda>x. (True, Some x)) (take 5 ?xs) @ replicate (5 - 3) (False, None) =
      [(True, Some (E_bool True)), (True, Some E_null), (True, Some (E_string ''x'')),
       (False, None), (False, None)]"
    by (simp add: numeral_eq_Suc)
  have l2: "map (\<lambda>f. (True, Some (Some (fst f), Some (length (fst f)), Some (snd f)))) (take 3 ?fs) @
        replicate (3 - 2) (False, None) =
      [(True, Some (Some ''a'', Some 1, Some (E_int64 1))),
       (True, Some (Some ''b'', Some 1, Some (E_array ?xs))), (False, None)]"
    by (simp add: numeral_eq_Suc)
  have lens: "length ?xs = 3" "length ?fs = 2"
    by simp_all
  have mins: "min 5 (3::nat) = 3" "min 3 (2::nat) = 2"
    by simp_all
  from h1 e1 e2
    C4_iterators_yield_each_child_once [of ?v "Stored 0 GET_FIELD 1" example_array_state ?xs
      None 0 5 null_value "[]" None "[]" 0 ?ait "Some null_value" False example_array_state
      "Some ?ait" "Some null_value" ?oit "Some []" "Some 0" "Some null_value" "Some ?oit"
      "Some []" "Some 0" "Some null_value"]
  have "\<exists>s'. array_iter_nexts 0 5 example_array_state
           (Some \<lparr>array = ?xs, current = 0, iter_end = length ?xs\<rparr>) (Some null_value) =
         Some (map (\<lambda>x. (True, Some x)) (take 5 ?xs) @ replicate (5 - length ?xs) (False, None),
               s', Some \<lparr>array = ?xs, current = min 5 (length ?xs), iter_end = length ?xs\<rparr>)"
    by blast
  then have r1: "\<exists>s'. array_iter_nexts 0 5 example_array_state
           (Some \<lparr>array = ?xs, current = 0, iter_end = 3\<rparr>) (Some null_value) =
         Some ([(True, Some (E_bool True)), (True, Some E_null), (True, Some (E_string ''x'')),
                (False, None), (False, None)],
               s', Some \<lparr>array = ?xs, current = 3, iter_end = 3\<rparr>)"
    unfolding lens l1 mins .
  from h2
    C4_iterators_yield_each_child_once [of "fj_document_root (Some 0)" "Root 0"
      example_array_state "[]" None 0 3 null_value ?fs None "[]" 0]
  have "\<exists>s'. object_iter_nexts 0 3 example_array_state
           (Some \<lparr>object = ?fs, ocurrent = 0, oiter_end = length ?fs\<rparr>)
           (Some []) (Some 0) (Some null_value) =
         Some (map (\<lambda>f. (True, Some (Some (fst f), Some (length (fst f)), Some (snd f)))) (take 3 ?fs) @
                 replicate (3 - length ?fs) (False, None),
               s', Some \<lparr>object = ?fs, ocurrent = min 3 (length ?fs), oiter_end = length ?fs\<rparr>)"
    by blast
  then have r2: "\<exists>s'. object_iter_nexts 0 3 example_array_state
           (Some \<lparr>object = ?fs, ocurrent = 0, oiter_end = 2\<rparr>)
           (Some []) (Some 0) (Some null_value) =
         Some ([(True, Some (Some ''a'', Some 1, Some (E_int64 1))),
                (True, Some (Some ''b'', Some 1, Some (E_array ?xs))), (False, None)],
               s', Some \<lparr>object = ?fs, ocurrent = 2, oiter_end = 2\<rparr>)"
    unfolding lens l2 mins .
  from h1 h2 r1 r2 e1 e2 show ?thesis
    by (intro conjI) blast+
qed

subsection \<open>The cells of derived Values\<close>

lemma uninitialized_not_success: "FJ_ERROR_UNINITIALIZED \<noteq> FJ_SUCCESS"
  by (simp add: fj_error_defs)

lemma derive_effect:
  "derive t s c = Some (out, s') \<Longrightarrow>
     (out = None \<and> s' = s) \<or>
     (\<exists>e cell v. store_element t (call_pool c) e s = (cell, s') \<and> out = Some v \<and>
            impl v = Some cell)"
proof (cases c)
  case (Get_field v key)
  assume "derive t s c = Some (out, s')"
  with Get_field show ?thesis
    by (auto simp: fj_value_get_field_def uninitialized_not_success map_error_success
          split: option.splits prod.splits if_splits)
next
  case (Get_field_len v key key_len)
  assume "derive t s c = Some (out, s')"
  with Get_field_len show ?thesis
    by (auto simp: fj_value_get_field_len_def uninitialized_not_success map_error_success
          split: option.splits prod.splits if_splits)
next
  case (Get_index v idx)
  assume "derive t s c = Some (out, s')"
  with Get_index show ?thesis
    by (auto simp: fj_value_get_index_def uninitialized_not_success map_error_success
          split: option.splits prod.splits if_splits)
next
  case (Array_iter_next iter)
  assume "derive t s c = Some (out, s')"
  with Array_iter_next show ?thesis
    by (auto simp: fj_array_iter_next_def split: option.splits prod.splits if_splits)
next
  case (Object_iter_next iter)
  assume "derive t s c = Some (out, s')"
  with Object_iter_next show ?thesis
    by (auto simp: fj_object_iter_next_def split: option.splits prod.splits if_splits)
qed


lemma store_element_ring:
  "store_element t p e s = (cell, s') \<Longrightarrow>
     cell = Stored t p ((stored_idx (stored s t p) + 1) mod 256) \<and>
     stored_idx (stored s' t p) = (stored_idx (stored s t p) + 1) mod 256 \<and>
     stored_elements (stored s' t p) =
       (stored_elements (stored s t p))((stored_idx (stored s t p) + 1) mod 256 := Some e) \<and>
     docs s' = docs s"
  by (auto simp: store_element_def Let_def)

lemma store_element_other:
  "store_element t p e s = (cell, s') \<Longrightarrow> (t', p') \<noteq> (t, p) \<Longrightarrow> stored s' t' p' = stored s t' p'"
  by (auto simp: store_element_def Let_def)

lemma ring_step_index: "((i + m) mod 256 + 1) mod 256 = (i + (m + 1)) mod (256::nat)"
  by (simp add: mod_simps add.assoc)

lemma ring_step_not_back:
  "i < 256 \<Longrightarrow> m + 1 < 256 \<Longrightarrow> ((i + m) mod 256 + 1) mod 256 \<noteq> (i::nat)"
proof
  assume a: "i < 256" "m + 1 < 256" "((i + m) mod 256 + 1) mod 256 = i"
  then have "(i + (m + 1)) mod 256 = i mod 256"
    by (simp add: mod_simps add.assoc)
  moreover have "i \<le> i + (m + 1)" by simp
  ultimately have "256 dvd (i + (m + 1)) - i"
    by (simp only: mod_eq_dvd_iff_nat)
  then have "256 dvd m + 1" by simp
  then have "256 \<le> m + 1" by (rule dvd_imp_le) simp
  with a show False by simp
qed

lemma derive_all_keeps_cell:
  "derive_all s cs = Some (ds, s') \<Longrightarrow> i < 256 \<Longrightarrow>
   stored_idx (stored s t p) = (i + m) mod 256 \<Longrightarrow> m + count_list ds (t, p) < 256 \<Longrightarrow>
     stored_elements (stored s' t p) i = stored_elements (stored s t p) i \<and>
     stored_idx (stored s' t p) = (i + (m + count_list ds (t, p))) mod 256"
proof (induction cs arbitrary: s ds m)
  case Nil
  then show ?case by simp
next
  case (Cons tc cs)
  obtain t1 c1 where tc: "tc = (t1, c1)" by (cases tc)
  from Cons.prems(1) tc obtain out s1 ds1 where
    d1: "derive t1 s c1 = Some (out, s1)" and
    rest: "derive_all s1 cs = Some (ds1, s')" and
    ds: "ds = (case out of None \<Rightarrow> ds1 | Some _ \<Rightarrow> (t1, call_pool c1) # ds1)"
    by (auto split: option.splits prod.splits)
  from derive_effect [OF d1] show ?case
  proof (elim disjE conjE exE)
    assume "out = None" "s1 = s"
    with ds rest Cons.prems Cons.IH [of s ds1 m] show ?thesis by simp
  next
    fix e cell v
    assume st: "store_element t1 (call_pool c1) e s = (cell, s1)" and out: "out = Some v"
    from out ds have ds': "ds = (t1, call_pool c1) # ds1" by simp
    show ?thesis
    proof (cases "(t1, call_pool c1) = (t, p)")
      case True
      with ds' have cnt: "count_list ds (t, p) = count_list ds1 (t, p) + 1" by simp
      with Cons.prems(4) have m1: "m + 1 < 256" and m2: "(m + 1) + count_list ds1 (t, p) < 256"
        by simp_all
      from True st have st': "store_element t p e s = (cell, s1)" by simp
      from store_element_ring [OF st']
      have a: "stored_idx (stored s1 t p) = (stored_idx (stored s t p) + 1) mod 256"
        and b: "stored_elements (stored s1 t p) =
           (stored_elements (stored s t p))((stored_idx (stored s t p) + 1) mod 256 := Some e)"
        by blast+
      from a have idx1: "stored_idx (stored s1 t p) = (i + (m + 1)) mod 256"
        by (simp only: Cons.prems(3) ring_step_index)
      have ne: "(stored_idx (stored s t p) + 1) mod 256 \<noteq> i"
        unfolding Cons.prems(3) by (rule ring_step_not_back [OF Cons.prems(2) m1])
      from b ne have keep1: "stored_elements (stored s1 t p) i = stored_elements (stored s t p) i"
        by simp
      from Cons.IH [OF rest Cons.prems(2) idx1 m2] keep1 cnt show ?thesis
        by (simp add: add.assoc add.commute)
    next
      case False
      with ds' have cnt: "count_list ds (t, p) = count_list ds1 (t, p)" by auto
      from False have "(t, p) \<noteq> (t1, call_pool c1)" by auto
      from store_element_other [OF st this] have same: "stored s1 t p = stored s t p" .
      with Cons.prems(3) have idx1: "stored_idx (stored s1 t p) = (i + m) mod 256" by simp
      from Cons.prems(4) cnt have m2: "m + count_list ds1 (t, p) < 256" by simp
      from Cons.IH [OF rest Cons.prems(2) idx1 m2] same cnt show ?thesis by simp
    qed
  qed
qed


lemma derive_all_cursor:
  "derive_all s cs = Some (ds, s') \<Longrightarrow> stored_idx (stored s t p) < 256 \<Longrightarrow>
     stored_idx (stored s' t p) = (stored_idx (stored s t p) + count_list ds (t, p)) mod 256"
proof (induction cs arbitrary: s ds)
  case Nil
  then show ?case by simp
next
  case (Cons tc cs)
  obtain t1 c1 where tc: "tc = (t1, c1)" by (cases tc)
  from Cons.prems(1) tc obtain out s1 ds1 where
    d1: "derive t1 s c1 = Some (out, s1)" and
    rest: "derive_all s1 cs = Some (ds1, s')" and
    ds: "ds = (case out of None \<Rightarrow> ds1 | Some _ \<Rightarrow> (t1, call_pool c1) # ds1)"
    by (auto split: option.splits prod.splits)
  from derive_effect [OF d1] show ?case
  proof (elim disjE conjE exE)
    assume "out = None" "s1 = s"
    with ds rest Cons.prems Cons.IH [of s ds1] show ?thesis by simp
  next
    fix e cell v
    assume st: "store_element t1 (call_pool c1) e s = (cell, s1)" and out: "out = Some v"
    from out ds have ds': "ds = (t1, call_pool c1) # ds1" by simp
    show ?thesis
    proof (cases "(t1, call_pool c1) = (t, p)")
      case True
      with ds' have cnt: "count_list ds (t, p) = count_list ds1 (t, p) + 1" by simp
      from True st have st': "store_element t p e s = (cell, s1)" by simp
      from store_element_ring [OF st']
      have a: "stored_idx (stored s1 t p) = (stored_idx (stored s t p) + 1) mod 256"
        by blast
      then have "stored_idx (stored s1 t p) < 256" by simp
      from Cons.IH [OF rest this] a cnt show ?thesis
        by (simp add: mod_simps add.assoc add.commute)
    next
      case False
      with ds' have cnt: "count_list ds (t, p) = count_list ds1 (t, p)" by auto
      from False have "(t, p) \<noteq> (t1, call_pool c1)" by auto
      from store_element_other [OF st this] have same: "stored s1 t p = stored s t p" .
      with Cons.prems(2) have "stored_idx (stored s1 t p) < 256" by simp
      from Cons.IH [OF rest this] same cnt show ?thesis by simp
    qed
  qed
qed

lemma derive_ring_step:
  assumes "derive t s0 c = Some (Some v, s)"
  shows "impl v = Some (Stored t (call_pool c) ((stored_idx (stored s0 t (call_pool c)) + 1) mod 256)) \<and>
     stored_idx (stored s t (call_pool c)) = (stored_idx (stored s0 t (call_pool c)) + 1) mod 256 \<and>
     (\<exists>e. get_element s (Stored t (call_pool c) (stored_idx (stored s t (call_pool c)))) = Some e) \<and>
     (\<forall>t' p'. (t', p') \<noteq> (t, call_pool c) \<longrightarrow> stored s t' p' = stored s0 t' p') \<and>
     docs s = docs s0"
proof -
  from derive_effect [OF assms] obtain e cell where
    st: "store_element t (call_pool c) e s0 = (cell, s)" and v: "impl v = Some cell"
    by auto
  from store_element_ring [OF st] store_element_read [OF st] store_element_other [OF st] v
  show ?thesis by auto
qed

text \<open>
  Claim C1, amended. Each of the five deriving functions (field lookup by key, field lookup
  by key and length, index lookup, array-iterator next, object-iterator next) has, in
  every thread, a ring of 256 cells and a cursor of its own. A call that derives a Value
  advances the cursor of its own function and thread by one modulo 256, writes the derived
  element into the cell the cursor then names, and hands back the address of that cell;
  it leaves the rings of the other functions and of the other threads as they were. So
  through any further sequence of calls the cell still holds the element as long as
  fewer than 256 of them derived a Value with the same function on the same thread, and
  after \<open>k\<close> such derivations the cursor stands \<open>k\<close> cells further modulo 256: the 256th
  lands on the cell again.
\<close>

theorem C1_one_ring_per_function:
  "(derive t s0 c = Some (Some v, s) \<longrightarrow>
      impl v = Some (Stored t (call_pool c) ((stored_idx (stored s0 t (call_pool c)) + 1) mod 256)) \<and>
      stored_idx (stored s t (call_pool c)) = (stored_idx (stored s0 t (call_pool c)) + 1) mod 256 \<and>
      (\<exists>e. get_element s (Stored t (call_pool c) (stored_idx (stored s t (call_pool c)))) = Some e) \<and>
      (\<forall>t' p'. (t', p') \<noteq> (t, call_pool c) \<longrightarrow> stored s t' p' = stored s0 t' p')) \<and>
   (derive t s0 c = Some (Some v, s) \<and> impl v = Some a \<and> derive_all s cs = Some (ds, s') \<and>
    count_list ds (t, call_pool c) < 256 \<longrightarrow>
      get_element s' a = get_element s a) \<and>
   (derive t s0 c = Some (Some v, s) \<and> derive_all s cs = Some (ds, s') \<longrightarrow>
      stored_idx (stored s' t (call_pool c)) =
        (stored_idx (stored s t (call_pool c)) + count_list ds (t, call_pool c)) mod 256)"
proof (intro conjI impI)
  assume "derive t s0 c = Some (Some v, s)"
  from derive_ring_step [OF this]
  show "impl v = Some (Stored t (call_pool c) ((stored_idx (stored s0 t (call_pool c)) + 1) mod 256))"
    and "stored_idx (stored s t (call_pool c)) = (stored_idx (stored s0 t (call_pool c)) + 1) mod 256"
    and "\<exists>e. get_element s (Stored t (call_pool c) (stored_idx (stored s t (call_pool c)))) = Some e"
    and "\<forall>t' p'. (t', p') \<noteq> (t, call_pool c) \<longrightarrow> stored s t' p' = stored s0 t' p'"
    by blast+
next
  assume h: "derive t s0 c = Some (Some v, s) \<and> impl v = Some a \<and> derive_all s cs = Some (ds, s') \<and>
    count_list ds (t, call_pool c) < 256"
  let ?p = "call_pool c"
  let ?i = "stored_idx (stored s t ?p)"
  from h derive_ring_step [of t s0 c v s]
  have a: "a = Stored t ?p ?i" and lt: "?i < 256"
    by auto
  from h have "derive_all s cs = Some (ds, s')" and "0 + count_list ds (t, ?p) < 256" by simp_all
  moreover from lt have "?i = (?i + 0) mod 256" by simp
  ultimately have "stored_elements (stored s' t ?p) ?i = stored_elements (stored s t ?p) ?i"
    using derive_all_keeps_cell [of s cs ds s' ?i t ?p 0] lt by blast
  with a lt show "get_element s' a = get_element s a"
    by (simp add: get_element_def)
next
  assume h: "derive t s0 c = Some (Some v, s) \<and> derive_all s cs = Some (ds, s')"
  with derive_ring_step [of t s0 c v s] have "stored_idx (stored s t (call_pool c)) < 256" by auto
  with h show "stored_idx (stored s' t (call_pool c)) =
        (stored_idx (stored s t (call_pool c)) + count_list ds (t, call_pool c)) mod 256"
    using derive_all_cursor [of s cs ds s' t "call_pool c"] by blast
qed


lemma derive_get_field_ok:
  "impl v = Some a \<Longrightarrow> get_element s a = Some (E_object fs) \<Longrightarrow> at_key fs k = (x, SUCCESS) \<Longrightarrow>
   derive t s (Get_field v (Some k)) =
     Some (Some \<lparr>impl = Some (fst (store_element t GET_FIELD x s)), doc = doc v\<rparr>,
           snd (store_element t GET_FIELD x s))"
  by (simp add: fj_value_get_field_def split: prod.splits)

lemma derive_get_index_ok:
  "impl v = Some a \<Longrightarrow> get_element s a = Some (E_array xs) \<Longrightarrow> i < length xs \<Longrightarrow>
   derive t s (Get_index v i) =
     Some (Some \<lparr>impl = Some (fst (store_element t GET_INDEX (xs ! i) s)), doc = doc v\<rparr>,
           snd (store_element t GET_INDEX (xs ! i) s))"
  by (simp add: fj_value_get_index_def at_def split: prod.splits)

lemma fst_store_element:
  "fst (store_element t p e s) = Stored t p ((stored_idx (stored s t p) + 1) mod 256)"
  by (simp add: store_element_def Let_def)

lemma stored_idx_store_element:
  "stored_idx (stored (snd (store_element t p e s)) t' p') =
     (if t' = t \<and> p' = p then (stored_idx (stored s t p) + 1) mod 256
      else stored_idx (stored s t' p'))"
  by (simp add: store_element_def Let_def)

lemma get_element_store_element_root:
  "get_element (snd (store_element t p e s)) (Root d) = get_element s (Root d)"
  by (simp add: store_element_def Let_def get_element_def)

lemma get_element_store_element_cell:
  "get_element (snd (store_element t p e s)) (Stored t' p' i) =
     (if t' = t \<and> p' = p \<and> i = (stored_idx (stored s t p) + 1) mod 256 then Some e
      else get_element s (Stored t' p' i))"
  by (auto simp: store_element_def Let_def get_element_def)

lemma stored_idx_example_state: "stored_idx (stored example_state t p) = 0"
  by (simp add: example_state_eq state0_def ring0_def)

lemma example_get_field_b:
  "derive 0 example_state (Get_field (fj_document_root (Some 0)) (Some ''b'')) =
     Some (Some \<lparr>impl = Some (Stored 0 GET_FIELD 1), doc = Some 0\<rparr>, example_array_state)"
proof -
  have "at_key [(''a'', E_int64 1), (''b'', E_array [E_bool True, E_null, E_string ''x''])] ''b'' =
      (E_array [E_bool True, E_null, E_string ''x''], SUCCESS)"
    by simp
  from derive_get_field_ok [OF _ _ this, of "fj_document_root (Some 0)" "Root 0" example_state 0]
  show ?thesis
    by (simp add: fj_document_root_def get_element_example_root example_root_def
          fst_store_element stored_idx_example_state example_array_state_def)
qed

lemma example_get_index_0:
  "derive 0 example_array_state (Get_index \<lparr>impl = Some (Stored 0 GET_FIELD 1), doc = Some 0\<rparr> 0) =
     Some (Some \<lparr>impl = Some (Stored 0 GET_INDEX 1), doc = Some 0\<rparr>, example_index_state)"
proof -
  have "get_element example_array_state (Stored 0 GET_FIELD 1) =
      Some (E_array [E_bool True, E_null, E_string ''x''])"
    by (rule example_array_read)
  from derive_get_index_ok [OF _ this, of "\<lparr>impl = Some (Stored 0 GET_FIELD 1), doc = Some 0\<rparr>" 0 0]
  show ?thesis
    by (simp add: fst_store_element stored_idx_store_element stored_idx_example_state
          example_array_state_def example_index_state_def)
qed

text \<open>
  Claim C1, as stated, fails: there is no single ring with one cursor. On thread 0 a field
  lookup hands back cell 1 of the ring of \<open>fj_value_get_field\<close>; the index lookup that
  follows does not write the next cell of that ring but cell 1 of the ring of
  \<open>fj_value_get_index\<close>, and the cursor of \<open>fj_value_get_field\<close> stays at 1.
\<close>

theorem C1_single_cursor_counterexample:
  "derive 0 example_state (Get_field (fj_document_root (Some 0)) (Some ''b'')) =
     Some (Some \<lparr>impl = Some (Stored 0 GET_FIELD 1), doc = Some 0\<rparr>, example_array_state) \<and>
   derive 0 example_array_state (Get_index \<lparr>impl = Some (Stored 0 GET_FIELD 1), doc = Some 0\<rparr> 0) =
     Some (Some \<lparr>impl = Some (Stored 0 GET_INDEX 1), doc = Some 0\<rparr>, example_index_state) \<and>
   Stored 0 GET_INDEX 1 \<noteq> Stored 0 GET_FIELD 2 \<and>
   stored_idx (stored example_array_state 0 GET_FIELD) = 1 \<and>
   stored_idx (stored example_index_state 0 GET_FIELD) = 1"
  using example_get_field_b example_get_index_0
  by (simp add: example_index_state_def example_array_state_def stored_idx_store_element
        stored_idx_example_state)


lemma derive_get_field_absent:
  "impl v = Some a \<Longrightarrow> get_element s a = Some (E_object fs) \<Longrightarrow> k \<notin> fst ` set fs \<Longrightarrow>
   derive t s (Get_field v (Some k)) = Some (None, s)"
  by (simp add: fj_value_get_field_def at_key_absent fj_error_defs)

lemma get_element_example_index_root:
  "get_element example_index_state (Root 0) = Some example_root"
  by (simp add: example_index_state_def get_element_store_element_root
        get_element_example_array_root)

theorem C1_one_ring_per_function_witness:
  "derive 0 example_state (Get_field (fj_document_root (Some 0)) (Some ''b'')) =
     Some (Some \<lparr>impl = Some (Stored 0 GET_FIELD 1), doc = Some 0\<rparr>, example_array_state) \<and>
   impl \<lparr>impl = Some (Stored 0 GET_FIELD 1), doc = Some 0\<rparr> = Some (Stored 0 GET_FIELD 1) \<and>
   derive_all example_array_state
     [(0, Get_index \<lparr>impl = Some (Stored 0 GET_FIELD 1), doc = Some 0\<rparr> 0),
      (1, Get_field (fj_document_root (Some 0)) (Some ''a'')),
      (0, Get_field (fj_document_root (Some 0)) (Some ''a'')),
      (0, Get_field (fj_document_root (Some 0)) (Some ''c''))] =
     Some ([(0, GET_INDEX), (1, GET_FIELD), (0, GET_FIELD)],
           snd (store_element 0 GET_FIELD (E_int64 1)
                  (snd (store_element 1 GET_FIELD (E_int64 1) example_index_state)))) \<and>
   count_list [(0, GET_INDEX), (1, GET_FIELD), (0::nat, GET_FIELD)] (0, GET_FIELD) < 256 \<and>
   get_element (snd (store_element 0 GET_FIELD (E_int64 1)
                  (snd (store_element 1 GET_FIELD (E_int64 1) example_index_state))))
      (Stored 0 GET_FIELD 1) = Some (E_array [E_bool True, E_null, E_string ''x'']) \<and>
   stored_idx (stored (snd (store_element 0 GET_FIELD (E_int64 1)
                  (snd (store_element 1 GET_FIELD (E_int64 1) example_index_state)))) 0 GET_FIELD) = 2"
proof -
  let ?root = "fj_document_root (Some 0)"
  let ?v = "\<lparr>impl = Some (Stored 0 GET_FIELD 1), doc = Some 0\<rparr>"
  let ?s2 = "snd (store_element 1 GET_FIELD (E_int64 1) example_index_state)"
  let ?s3 = "snd (store_element 0 GET_FIELD (E_int64 1) ?s2)"
  let ?cs = "[(0, Get_index ?v 0), (1, Get_field ?root (Some ''a'')),
              (0, Get_field ?root (Some ''a'')), (0, Get_field ?root (Some ''c''))]"
  let ?ds = "[(0, GET_INDEX), (1, GET_FIELD), (0::nat, GET_FIELD)]"
  have root: "impl ?root = Some (Root 0)"
    by (simp add: fj_document_root_def)
  have ka: "at_key [(''a'', E_int64 1), (''b'', E_array [E_bool True, E_null, E_string ''x''])] ''a'' =
      (E_int64 1, SUCCESS)"
    by simp
  have kc: "''c'' \<notin> fst ` set [(''a'', E_int64 1), (''b'', E_array [E_bool True, E_null, E_string ''x''])]"
    by simp
  have r1: "get_element example_index_state (Root 0) =
      Some (E_object [(''a'', E_int64 1), (''b'', E_array [E_bool True, E_null, E_string ''x''])])"
    by (simp add: get_element_example_index_root example_root_def)
  then have r2: "get_element ?s2 (Root 0) =
      Some (E_object [(''a'', E_int64 1), (''b'', E_array [E_bool True, E_null, E_string ''x''])])"
    by (simp add: get_element_store_element_root)
  then have r3: "get_element ?s3 (Root 0) =
      Some (E_object [(''a'', E_int64 1), (''b'', E_array [E_bool True, E_null, E_string ''x''])])"
    by (simp add: get_element_store_element_root)
  have d2: "derive 1 example_index_state (Get_field ?root (Some ''a'')) =
      Some (Some \<lparr>impl = Some (fst (store_element 1 GET_FIELD (E_int64 1) example_index_state)),
                   doc = doc ?root\<rparr>, ?s2)"
    by (rule derive_get_field_ok [OF root r1 ka])
  have d3: "derive 0 ?s2 (Get_field ?root (Some ''a'')) =
      Some (Some \<lparr>impl = Some (fst (store_element 0 GET_FIELD (E_int64 1) ?s2)), doc = doc ?root\<rparr>, ?s3)"
    by (rule derive_get_field_ok [OF root r2 ka])
  have d4: "derive 0 ?s3 (Get_field ?root (Some ''c'')) = Some (None, ?s3)"
    by (rule derive_get_field_absent [OF root r3 kc])
  have run: "derive_all example_array_state ?cs = Some (?ds, ?s3)"
    by (simp only: derive_all.simps example_get_index_0 d2 d3 d4 option.case prod.case
          call_pool.simps)
  have cnt: "count_list ?ds (0, GET_FIELD) < 256"
    by simp
  then have cnt': "count_list ?ds (0, call_pool (Get_field ?root (Some ''b''))) < 256"
    by (simp only: call_pool.simps)
  have h: "derive 0 example_state (Get_field ?root (Some ''b'')) = Some (Some ?v, example_array_state)"
    by (rule example_get_field_b)
  have iv: "impl ?v = Some (Stored 0 GET_FIELD 1)"
    by simp
  note T = C1_one_ring_per_function [of 0 example_state "Get_field ?root (Some ''b'')" ?v
      example_array_state "Stored 0 GET_FIELD 1" ?cs ?ds ?s3]
  have keep: "get_element ?s3 (Stored 0 GET_FIELD 1) =
      get_element example_array_state (Stored 0 GET_FIELD 1)"
    by (rule mp [OF T [THEN conjunct2, THEN conjunct1]]) (intro conjI h iv run cnt')
  have cur: "stored_idx (stored ?s3 0 (call_pool (Get_field ?root (Some ''b'')))) =
      (stored_idx (stored example_array_state 0 (call_pool (Get_field ?root (Some ''b'')))) +
         count_list ?ds (0, call_pool (Get_field ?root (Some ''b'')))) mod 256"
    by (rule mp [OF T [THEN conjunct2, THEN conjunct2]]) (intro conjI h run)
  from keep have keep': "get_element ?s3 (Stored 0 GET_FIELD 1) =
      Some (E_array [E_bool True, E_null, E_string ''x''])"
    by (simp only: example_array_read)
  have idx: "stored_idx (stored example_array_state 0 GET_FIELD) = 1"
    by (simp add: example_array_state_def stored_idx_store_element stored_idx_example_state)
  from cur have cur': "stored_idx (stored ?s3 0 GET_FIELD) = 2"
    by (simp only: call_pool.simps idx) simp
  show ?thesis
    by (intro conjI h iv run cnt keep' cur')
qed


subsection \<open>The back-reference to the document\<close>

lemma array_iter_next_doc:
  "fj_array_iter_next t s iter out = Some (True, s', iter', out') \<Longrightarrow>
     \<exists>v. out' = Some v \<and> doc v = None"
  by (auto simp: fj_array_iter_next_def split: option.splits prod.splits if_splits)

lemma object_iter_next_doc:
  "fj_object_iter_next t s iter key key_len val = Some (True, s', iter', key', key_len', val') \<Longrightarrow>
     \<exists>v. val' = Some v \<and> doc v = None"
  by (auto simp: fj_object_iter_next_def split: option.splits prod.splits if_splits)

lemma get_field_doc:
  "fj_value_get_field t s w key out = Some (FJ_SUCCESS, s', out') \<Longrightarrow>
     \<exists>v. out' = Some v \<and> doc v = doc w"
  by (auto simp: fj_value_get_field_def uninitialized_not_success map_error_success
        split: option.splits prod.splits if_splits)

lemma get_field_len_doc:
  "fj_value_get_field_len t s w key key_len out = Some (FJ_SUCCESS, s', out') \<Longrightarrow>
     \<exists>v. out' = Some v \<and> doc v = doc w"
  by (auto simp: fj_value_get_field_len_def uninitialized_not_success map_error_success
        split: option.splits prod.splits if_splits)

lemma get_index_doc:
  "fj_value_get_index t s w idx out = Some (FJ_SUCCESS, s', out') \<Longrightarrow>
     \<exists>v. out' = Some v \<and> doc v = doc w"
  by (auto simp: fj_value_get_index_def uninitialized_not_success map_error_success
        split: option.splits prod.splits if_splits)

text \<open>
  Claim C2 against the code. A Value handed back by \<open>fj_array_iter_next\<close> or
  \<open>fj_object_iter_next\<close> always has a null \<open>doc\<close>: both functions assign \<open>nullptr\<close> to
  it. The lookups by key, by key and length and by index copy \<open>doc\<close> from the Value they
  are applied to, and \<open>fj_document_root\<close> stores the document handle. So a Value carries
  the back-reference to its document only if the path from the root to it went through
  no iterator.
\<close>

theorem C2_iterator_values_have_null_doc:
  "(fj_array_iter_next t s aiter aout = Some (True, s1, aiter', aout') \<longrightarrow>
      (\<exists>v. aout' = Some v \<and> doc v = None)) \<and>
   (fj_object_iter_next t s oiter key key_len val = Some (True, s2, oiter', key', key_len', val') \<longrightarrow>
      (\<exists>v. val' = Some v \<and> doc v = None)) \<and>
   (fj_value_get_field t s w fkey fout = Some (FJ_SUCCESS, s3, fout') \<longrightarrow>
      (\<exists>v. fout' = Some v \<and> doc v = doc w)) \<and>
   (fj_value_get_field_len t s w fkey fkey_len fout = Some (FJ_SUCCESS, s4, lout') \<longrightarrow>
      (\<exists>v. lout' = Some v \<and> doc v = doc w)) \<and>
   (fj_value_get_index t s w idx fout = Some (FJ_SUCCESS, s5, iout') \<longrightarrow>
      (\<exists>v. iout' = Some v \<and> doc v = doc w)) \<and>
   doc (fj_document_root dh) = dh"
  using array_iter_next_doc [of t s aiter aout s1 aiter' aout']
    object_iter_next_doc [of t s oiter key key_len val s2 oiter' key' key_len' val']
    get_field_doc [of t s w fkey fout s3 fout']
    get_field_len_doc [of t s w fkey fkey_len fout s4 lout']
    get_index_doc [of t s w idx fout s5 iout']
  by (simp add: fj_document_root_def)

lemma array_iter_next_value:
  "current it \<noteq> iter_end it \<Longrightarrow> current it < length (array it) \<Longrightarrow>
   fj_array_iter_next t s (Some it) (Some out) =
     Some (True, snd (store_element t ARRAY_ITER_NEXT (array it ! current it) s),
           Some (it\<lparr>current := current it + 1\<rparr>),
           Some \<lparr>impl = Some (fst (store_element t ARRAY_ITER_NEXT (array it ! current it) s)),
                  doc = None\<rparr>)"
  by (simp add: fj_array_iter_next_def split: prod.splits)

lemma example_array_iter_next:
  "fj_array_iter_next 0 example_array_state
      (Some \<lparr>array = [E_bool True, E_null, E_string ''x''], current = 0, iter_end = 3\<rparr>)
      (Some \<lparr>impl = None, doc = Some 0\<rparr>) =
     Some (True, snd (store_element 0 ARRAY_ITER_NEXT (E_bool True) example_array_state),
           Some \<lparr>array = [E_bool True, E_null, E_string ''x''], current = 1, iter_end = 3\<rparr>,
           Some \<lparr>impl = Some (Stored 0 ARRAY_ITER_NEXT 1), doc = None\<rparr>)"
proof -
  have "fst (store_element 0 ARRAY_ITER_NEXT (E_bool True) example_array_state) =
      Stored 0 ARRAY_ITER_NEXT 1"
    by (simp add: fst_store_element example_array_state_def stored_idx_store_element
          stored_idx_example_state)
  with array_iter_next_value [of
      "\<lparr>array = [E_bool True, E_null, E_string ''x''], current = 0, iter_end = 3\<rparr>"
      0 example_array_state "\<lparr>impl = None, doc = Some 0\<rparr>"]
  show ?thesis by simp
qed

lemma object_iter_next_value:
  "ocurrent it \<noteq> oiter_end it \<Longrightarrow> ocurrent it < length (object it) \<Longrightarrow>
   fj_object_iter_next t s (Some it) (Some key) (Some key_len) (Some val) =
     Some (True, snd (store_element t OBJECT_ITER_NEXT (snd (object it ! ocurrent it)) s),
           Some (it\<lparr>ocurrent := ocurrent it + 1\<rparr>),
           Some (fst (object it ! ocurrent it)), Some (length (fst (object it ! ocurrent it))),
           Some \<lparr>impl = Some (fst (store_element t OBJECT_ITER_NEXT (snd (object it ! ocurrent it)) s)),
                  doc = None\<rparr>)"
  by (cases "object it ! ocurrent it") (simp add: fj_object_iter_next_def split: prod.splits)

lemma get_field_value:
  "impl v = Some a \<Longrightarrow> get_element s a = Some (E_object fs) \<Longrightarrow> at_key fs k = (x, SUCCESS) \<Longrightarrow>
   fj_value_get_field t s v (Some k) (Some out) =
     Some (FJ_SUCCESS, snd (store_element t GET_FIELD x s),
           Some \<lparr>impl = Some (fst (store_element t GET_FIELD x s)), doc = doc v\<rparr>)"
  by (simp add: fj_value_get_field_def split: prod.splits)

lemma get_field_len_value:
  "impl v = Some a \<Longrightarrow> get_element s a = Some (E_object fs) \<Longrightarrow> key_len \<le> length k \<Longrightarrow>
   at_key fs (take key_len k) = (x, SUCCESS) \<Longrightarrow>
   fj_value_get_field_len t s v (Some k) key_len (Some out) =
     Some (FJ_SUCCESS, snd (store_element t GET_FIELD_LEN x s),
           Some \<lparr>impl = Some (fst (store_element t GET_FIELD_LEN x s)), doc = doc v\<rparr>)"
  by (simp add: fj_value_get_field_len_def split: prod.splits)

lemma get_index_value:
  "impl v = Some a \<Longrightarrow> get_element s a = Some (E_array xs) \<Longrightarrow> i < length xs \<Longrightarrow>
   fj_value_get_index t s v i (Some out) =
     Some (FJ_SUCCESS, snd (store_element t GET_INDEX (xs ! i) s),
           Some \<lparr>impl = Some (fst (store_element t GET_INDEX (xs ! i) s)), doc = doc v\<rparr>)"
  by (simp add: fj_value_get_index_def at_def split: prod.splits)

lemma example_object_iter_next:
  "fj_object_iter_next 0 example_array_state
      (Some \<lparr>object = [(''a'', E_int64 1), (''b'', E_array [E_bool True, E_null, E_string ''x''])],
             ocurrent = 0, oiter_end = 2\<rparr>)
      (Some []) (Some 0) (Some \<lparr>impl = None, doc = Some 0\<rparr>) =
     Some (True, snd (store_element 0 OBJECT_ITER_NEXT (E_int64 1) example_array_state),
           Some \<lparr>object = [(''a'', E_int64 1), (''b'', E_array [E_bool True, E_null, E_string ''x''])],
                  ocurrent = 1, oiter_end = 2\<rparr>,
           Some ''a'', Some 1,
           Some \<lparr>impl = Some (Stored 0 OBJECT_ITER_NEXT 1), doc = None\<rparr>)"
proof -
  have "fst (store_element 0 OBJECT_ITER_NEXT (E_int64 1) example_array_state) =
      Stored 0 OBJECT_ITER_NEXT 1"
    by (simp add: fst_store_element example_array_state_def stored_idx_store_element
          stored_idx_example_state)
  with object_iter_next_value [of
      "\<lparr>object = [(''a'', E_int64 1), (''b'', E_array [E_bool True, E_null, E_string ''x''])],
        ocurrent = 0, oiter_end = 2\<rparr>"
      0 example_array_state "[]" 0 "\<lparr>impl = None, doc = Some 0\<rparr>"]
  show ?thesis by simp
qed

lemma example_value_get_field:
  "fj_value_get_field 0 example_state (fj_document_root (Some 0)) (Some ''b'') (Some null_value) =
     Some (FJ_SUCCESS, example_array_state, Some \<lparr>impl = Some (Stored 0 GET_FIELD 1), doc = Some 0\<rparr>)"
proof -
  have "at_key [(''a'', E_int64 1), (''b'', E_array [E_bool True, E_null, E_string ''x''])] ''b'' =
      (E_array [E_bool True, E_null, E_string ''x''], SUCCESS)"
    by simp
  from get_field_value [OF _ _ this, of "fj_document_root (Some 0)" "Root 0" example_state 0 null_value]
  show ?thesis
    by (simp add: fj_document_root_def get_element_example_root example_root_def
          fst_store_element stored_idx_example_state example_array_state_def)
qed

lemma example_value_get_field_len:
  "fj_value_get_field_len 0 example_state (fj_document_root (Some 0)) (Some ''bc'') 1 (Some null_value) =
     Some (FJ_SUCCESS,
           snd (store_element 0 GET_FIELD_LEN (E_array [E_bool True, E_null, E_string ''x''])
                  example_state),
           Some \<lparr>impl = Some (Stored 0 GET_FIELD_LEN 1), doc = Some 0\<rparr>)"
proof -
  have "at_key [(''a'', E_int64 1), (''b'', E_array [E_bool True, E_null, E_string ''x''])]
          (take 1 ''bc'') = (E_array [E_bool True, E_null, E_string ''x''], SUCCESS)"
    by simp
  from get_field_len_value [OF _ _ _ this, of "fj_document_root (Some 0)" "Root 0" example_state
      0 null_value]
  show ?thesis
    by (simp add: fj_document_root_def get_element_example_root example_root_def
          fst_store_element stored_idx_example_state)
qed

lemma example_value_get_index:
  "fj_value_get_index 0 example_array_state \<lparr>impl = Some (Stored 0 GET_FIELD 1), doc = Some 0\<rparr> 0
      (Some null_value) =
     Some (FJ_SUCCESS, example_index_state, Some \<lparr>impl = Some (Stored 0 GET_INDEX 1), doc = Some 0\<rparr>)"
proof -
  have "get_element example_array_state (Stored 0 GET_FIELD 1) =
      Some (E_array [E_bool True, E_null, E_string ''x''])"
    by (rule example_array_read)
  from get_index_value [OF _ this, of "\<lparr>impl = Some (Stored 0 GET_FIELD 1), doc = Some 0\<rparr>" 0 0
      null_value]
  show ?thesis
    by (simp add: fst_store_element stored_idx_store_element stored_idx_example_state
          example_array_state_def example_index_state_def)
qed

theorem C2_iterator_values_have_null_doc_witness:
  "fj_array_iter_next 0 example_array_state
      (Some \<lparr>array = [E_bool True, E_null, E_string ''x''], current = 0, iter_end = 3\<rparr>)
      (Some \<lparr>impl = None, doc = Some 0\<rparr>) =
     Some (True, snd (store_element 0 ARRAY_ITER_NEXT (E_bool True) example_array_state),
           Some \<lparr>array = [E_bool True, E_null, E_string ''x''], current = 1, iter_end = 3\<rparr>,
           Some \<lparr>impl = Some (Stored 0 ARRAY_ITER_NEXT 1), doc = None\<rparr>) \<and>
   fj_object_iter_next 0 example_array_state
      (Some \<lparr>object = [(''a'', E_int64 1), (''b'', E_array [E_bool True, E_null, E_string ''x''])],
             ocurrent = 0, oiter_end = 2\<rparr>)
      (Some []) (Some 0) (Some \<lparr>impl = None, doc = Some 0\<rparr>) =
     Some (True, snd (store_element 0 OBJECT_ITER_NEXT (E_int64 1) example_array_state),
           Some \<lparr>object = [(''a'', E_int64 1), (''b'', E_array [E_bool True, E_null, E_string ''x''])],
                  ocurrent = 1, oiter_end = 2\<rparr>,
           Some ''a'', Some 1,
           Some \<lparr>impl = Some (Stored 0 OBJECT_ITER_NEXT 1), doc = None\<rparr>) \<and>
   fj_value_get_field 0 example_state (fj_document_root (Some 0)) (Some ''b'') (Some null_value) =
     Some (FJ_SUCCESS, example_array_state, Some \<lparr>impl = Some (Stored 0 GET_FIELD 1), doc = Some 0\<rparr>) \<and>
   fj_value_get_field_len 0 example_state (fj_document_root (Some 0)) (Some ''bc'') 1 (Some null_value) =
     Some (FJ_SUCCESS,
           snd (store_element 0 GET_FIELD_LEN (E_array [E_bool True, E_null, E_string ''x''])
                  example_state),
           Some \<lparr>impl = Some (Stored 0 GET_FIELD_LEN 1), doc = Some 0\<rparr>) \<and>
   fj_value_get_index 0 example_array_state \<lparr>impl = Some (Stored 0 GET_FIELD 1), doc = Some 0\<rparr> 0
      (Some null_value) =
     Some (FJ_SUCCESS, example_index_state, Some \<lparr>impl = Some (Stored 0 GET_INDEX 1), doc = Some 0\<rparr>) \<and>
   doc \<lparr>impl = Some (Stored 0 ARRAY_ITER_NEXT 1), doc = None\<rparr> = None \<and>
   doc (fj_document_root (Some 0)) = Some 0"
proof -
  note T = C2_iterator_values_have_null_doc [of 0 example_array_state
      "Some \<lparr>array = [E_bool True, E_null, E_string ''x''], current = 0, iter_end = 3\<rparr>"
      "Some \<lparr>impl = None, doc = Some 0\<rparr>"
      "snd (store_element 0 ARRAY_ITER_NEXT (E_bool True) example_array_state)"
      "Some \<lparr>array = [E_bool True, E_null, E_string ''x''], current = 1, iter_end = 3\<rparr>"
      "Some \<lparr>impl = Some (Stored 0 ARRAY_ITER_NEXT 1), doc = None\<rparr>"
      None None None None example_array_state None None None None
      null_value None None example_array_state None 0 example_array_state None 0
      example_array_state None "Some 0"]
  from mp [OF T [THEN conjunct1] example_array_iter_next]
  have d: "doc \<lparr>impl = Some (Stored 0 ARRAY_ITER_NEXT 1), doc = None\<rparr> = None"
    by auto
  have r: "doc (fj_document_root (Some 0)) = Some 0"
    by (simp add: fj_document_root_def)
  show ?thesis
    by (intro conjI example_array_iter_next example_object_iter_next example_value_get_field
          example_value_get_field_len example_value_get_index d r)
qed

end
